theory Spec2Isabelle
  imports Complex_Main "HOL-Library.Word"
begin

section \<open>The balance application of the VESC firmware (applications/app_balance.c)\<close>

text \<open>
  The controller is one C file of file-level statics that a single thread mutates once
  per loop iteration. The embedding keeps that shape: the statics are the fields of the
  record \<open>balance\<close>, every C function is a HOL function from the record to the record
  (with the C return value beside it where there is one), and the loop body of
  \<open>balance_thread\<close> is cut into the fragments the source separates by comments.

  Numbers. C \<open>float\<close> is modelled by \<open>real\<close>: comparisons, selections (\<open>fminf\<close>,
  \<open>fmaxf\<close>, \<open>fabsf\<close>) and the control flow they decide are those of the source, while
  rounding, infinities and NaN are outside the model. \<open>systime_t\<close> is the 32-bit tick
  counter of ChibiOS, a \<open>32 word\<close> whose subtraction wraps. The unsigned 16-bit
  configuration fields (delays, loop rate) are \<open>nat\<close>.
\<close>

subsection \<open>Enumerations\<close>

datatype BalanceState =
    STARTUP
  | RUNNING
  | RUNNING_TILTBACK_DUTY
  | RUNNING_TILTBACK_HIGH_VOLTAGE
  | RUNNING_TILTBACK_LOW_VOLTAGE
  | FAULT_ANGLE_PITCH
  | FAULT_ANGLE_ROLL
  | FAULT_SWITCH_HALF
  | FAULT_SWITCH_FULL
  | FAULT_DUTY
  | FAULT_STARTUP
  | FAULT_REVERSE

text \<open>The enumerators' integer values, used where the source compares states with \<open><=\<close>.\<close>

fun BalanceState_val :: "BalanceState \<Rightarrow> nat" where
  "BalanceState_val STARTUP = 0"
| "BalanceState_val RUNNING = 1"
| "BalanceState_val RUNNING_TILTBACK_DUTY = 2"
| "BalanceState_val RUNNING_TILTBACK_HIGH_VOLTAGE = 3"
| "BalanceState_val RUNNING_TILTBACK_LOW_VOLTAGE = 4"
| "BalanceState_val FAULT_ANGLE_PITCH = 6"
| "BalanceState_val FAULT_ANGLE_ROLL = 7"
| "BalanceState_val FAULT_SWITCH_HALF = 8"
| "BalanceState_val FAULT_SWITCH_FULL = 9"
| "BalanceState_val FAULT_DUTY = 10"
| "BalanceState_val FAULT_STARTUP = 11"
| "BalanceState_val FAULT_REVERSE = 12"

datatype SetpointAdjustmentType =
    CENTERING
  | REVERSESTOP
  | TILTBACK_NONE
  | TILTBACK_DUTY
  | TILTBACK_HV
  | TILTBACK_LV

fun SetpointAdjustmentType_val :: "SetpointAdjustmentType \<Rightarrow> nat" where
  "SetpointAdjustmentType_val CENTERING = 0"
| "SetpointAdjustmentType_val REVERSESTOP = 1"
| "SetpointAdjustmentType_val TILTBACK_NONE = 2"
| "SetpointAdjustmentType_val TILTBACK_DUTY = 3"
| "SetpointAdjustmentType_val TILTBACK_HV = 4"
| "SetpointAdjustmentType_val TILTBACK_LV = 5"

datatype SwitchState = OFF | HALF | ON

text \<open>
  What the loop sends to its collaborators (buzzer, motor interface, watchdog), in the
  order it sends it. The drivers themselves are outside this file.
\<close>

datatype effect =
    Beep_on bool
  | Beep_off bool
  | Beep_alert nat bool
  | Timeout_reset
  | Set_current_off_delay real
  | Set_current real
  | Set_brake_current real

subsection \<open>Configuration and statics\<close>

text \<open>
  \<open>balance_config\<close> is declared in datatypes.h, which is not part of this file; the
  record lists the fields the modelled functions read, under the source's names with the
  prefix \<open>conf_\<close> (several of them share their name with a static of the controller).
\<close>

record balance_config =
  conf_kp :: real
  conf_ki :: real
  conf_kd :: real
  conf_hertz :: nat
  conf_fault_pitch :: real
  conf_fault_roll :: real
  conf_fault_duty :: real
  conf_fault_adc1 :: real
  conf_fault_adc2 :: real
  conf_fault_delay_pitch :: nat
  conf_fault_delay_roll :: nat
  conf_fault_delay_duty :: nat
  conf_fault_delay_switch_half :: nat
  conf_fault_delay_switch_full :: nat
  conf_fault_adc_half_erpm :: real
  conf_tiltback_duty_angle :: real
  conf_tiltback_duty_speed :: real
  conf_tiltback_duty :: real
  conf_tiltback_hv_angle :: real
  conf_tiltback_hv_speed :: real
  conf_tiltback_hv :: real
  conf_tiltback_lv_angle :: real
  conf_tiltback_lv_speed :: real
  conf_tiltback_lv :: real
  conf_tiltback_return_speed :: real
  conf_tiltback_constant :: real
  conf_tiltback_constant_erpm :: real
  conf_tiltback_variable :: real
  conf_tiltback_variable_max :: real
  conf_noseangling_speed :: real
  conf_startup_pitch_tolerance :: real
  conf_startup_roll_tolerance :: real
  conf_startup_speed :: real
  conf_yaw_kd :: real
  conf_booster_current :: real
  conf_torquetilt_start_current :: real
  conf_torquetilt_angle_limit :: real
  conf_torquetilt_on_speed :: real
  conf_torquetilt_off_speed :: real
  conf_torquetilt_strength :: real
  conf_turntilt_strength :: real
  conf_turntilt_angle_limit :: real
  conf_turntilt_start_angle :: real
  conf_turntilt_start_erpm :: real
  conf_turntilt_speed :: real
  conf_turntilt_erpm_boost :: real
  conf_turntilt_erpm_boost_end :: real
  conf_brake_current :: real
  conf_roll_steer_kp :: real
  conf_roll_steer_erpm_kp :: real
  conf_yaw_current_clamp :: real
  conf_yaw_ki :: real
  conf_booster_angle :: real
  conf_booster_ramp :: real
  conf_kd_pt1_lowpass_frequency :: nat
  conf_kd_pt1_highpass_frequency :: nat
  conf_kd_biquad_lowpass :: real
  conf_kd_biquad_highpass :: real
  conf_torquetilt_filter :: real

record Biquad =
  a0 :: real
  a1 :: real
  a2 :: real
  b1 :: real
  b2 :: real
  z1 :: real
  z2 :: real

text \<open>
  The statics of the file. The first group is written by \<open>app_balance_configure\<close> only,
  the rest by the balance thread. \<open>effects\<close> is not a static: it collects the calls to
  the collaborators.
\<close>

record balance =
  balance_conf :: balance_config
  startup_step_size :: real
  tiltback_duty_step_size :: real
  tiltback_hv_step_size :: real
  tiltback_lv_step_size :: real
  tiltback_return_step_size :: real
  torquetilt_on_step_size :: real
  torquetilt_off_step_size :: real
  turntilt_step_size :: real
  noseangling_step_size :: real
  tiltback_variable :: real
  tiltback_variable_max_erpm :: real
  tt_pid_intensity :: real
  tt_strength_uphill :: real
  integral_tt_impact_uphill :: real
  integral_tt_impact_downhill :: real
  allow_high_speed_full_switch_faults :: bool
  mc_current_max :: real
  mc_current_min :: real
  mc_max_temp_fet :: real
  reverse_stop_step_size :: real
  reverse_tolerance :: real
  use_reverse_stop :: bool
  use_soft_start :: bool
  center_jerk_duration_ms :: int
  center_jerk_strength :: real
  start_counter_clicks_max :: nat
  click_current :: nat
  erpm_sign :: int
  tuntilt_boost_per_erpm :: real
  yaw_aggregate_target :: real
  cutback_enable :: bool
  cutback_minspeed :: real
  roll_aggregate_threshold :: real
  center_boost_angle :: real
  center_boost_kp_adder :: real
  max_brake_amps :: real
  max_derivative :: real
  accel_boost_threshold :: real
  accel_boost_threshold2 :: real
  accel_boost_intensity :: real
  kp_acc :: real
  ki_acc :: real
  kd_acc :: real
  d_pt1_lowpass_k :: real
  motor_timeout :: real
  ttt_brake_ratio :: real
  current_limiting :: bool
  reverse_total_erpm :: real
  reverse_timer :: "32 word"
  softstart_timer :: "32 word"
  center_stiffness_delay_ms :: int
  center_jerk_counter :: int
  center_jerk_adder :: real
  start_counter_clicks :: nat
  acceleration :: real
  acceleration_raw :: real
  last_erpm :: real
  accel_gap :: real
  accel_gap_aggregate :: real
  torquetilt_target :: real
  sss :: real
  last_yaw_angle :: real
  yaw_angle :: real
  abs_yaw_change :: real
  last_yaw_change :: real
  yaw_change :: real
  yaw_aggregate :: real
  cutback :: bool
  pitch_angle :: real
  last_pitch_angle :: real
  roll_angle :: real
  abs_roll_angle :: real
  roll_aggregate :: real
  duty_cycle :: real
  abs_duty_cycle :: real
  erpm :: real
  abs_erpm :: real
  motor_current :: real
  motor_position :: real
  adc1 :: real
  adc2 :: real
  switch_state :: SwitchState
  state :: BalanceState
  log_balance_state :: int
  proportional :: real
  integral :: real
  derivative :: real
  last_proportional :: real
  pid_value :: real
  setpoint :: real
  setpoint_target :: real
  setpoint_target_interpolated :: real
  noseangling_interpolated :: real
  torquetilt_filtered_current :: real
  torquetilt_interpolated :: real
  torquetilt_current_biquad :: Biquad
  accel_biquad :: Biquad
  turntilt_target :: real
  turntilt_interpolated :: real
  setpointAdjustmentType :: SetpointAdjustmentType
  current_time :: "32 word"
  last_time :: "32 word"
  diff_time :: "32 word"
  fault_angle_pitch_timer :: "32 word"
  fault_angle_roll_timer :: "32 word"
  fault_switch_timer :: "32 word"
  fault_switch_half_timer :: "32 word"
  fault_duty_timer :: "32 word"
  tb_highvoltage_timer :: "32 word"
  kp :: real
  ki :: real
  kd :: real
  d_pt1_lowpass_state :: real
  brake_timeout :: "32 word"
  accelhist :: "real list"
  accelidx :: nat
  accelavg :: real
  inactivity_timer :: real
  lock_state :: int
  balance_integral :: real
  balance_setpoint :: real
  balance_atr :: real
  balance_carve :: real
  balance_ki :: real
  effects :: "effect list"

text \<open>
  \<open>SIGN\<close> is a macro of utils.h, which is not part of this file:
  \<^verbatim>\<open>#define SIGN(x) (((x) < 0.0) ? -1.0 : 1.0)\<close>.
\<close>

definition SIGN :: "real \<Rightarrow> real" where
  "SIGN x = (if x < 0 then - 1 else 1)"

subsection \<open>Readings of one loop iteration\<close>

text \<open>
  The values the collaborators return in one iteration of the loop, one field per call,
  under the name of the call. The thread reads the input voltage and the FET temperature
  through macros and accessors that are not part of this file; within one iteration the
  model gives every read of the same accessor the same value.
\<close>

record readings =
  chVTGetSystemTimeX :: "32 word"
  mc_interface_get_tot_current_directional_filtered :: real
  mc_interface_get_pid_pos_now :: real
  imu_get_pitch :: real
  imu_get_roll :: real
  imu_get_yaw :: real
  mc_interface_get_duty_cycle_now :: real
  mc_interface_get_rpm :: real
  mcpwm_foc_get_smooth_erpm :: real
  ADC_Value_EXT :: nat
  ADC_Value_EXT2 :: nat
  V_REG :: real
  GET_INPUT_VOLTAGE :: real
  mc_interface_temp_fet_filtered :: real

text \<open>
  \<open>RAD2DEG_f\<close> is a macro of utils.h:
  \<^verbatim>\<open>#define RAD2DEG_f(rad) ((rad) * (float)(180.0 / M_PI))\<close>.
  \<open>ST2MS\<close>, which turns a number of system ticks into milliseconds, is a macro of
  ChibiOS that depends on the tick frequency of the board; the functions that use it
  take it as their first argument.
\<close>

definition RAD2DEG_f :: "real \<Rightarrow> real" where
  "RAD2DEG_f rad = rad * (180 / pi)"

definition ACCEL_ARRAY_SIZE :: nat where
  "ACCEL_ARRAY_SIZE = 40"

definition START_GRACE_PERIOD_MS :: nat where
  "START_GRACE_PERIOD_MS = 100"

definition START_CENTER_DELAY_MS :: int where
  "START_CENTER_DELAY_MS = 1000"

subsection \<open>app_balance_configure\<close>

text \<open>
  The motor and application configurations come from \<open>mc_interface_get_configuration\<close>
  and \<open>app_get_configuration\<close>; the records hold the fields the function reads.
  \<open>nrf_retry_delay_3750US\<close> stands for the comparison
  \<^verbatim>\<open>app_nrf_conf.retry_delay == NRF_RETR_DELAY_3750US\<close>.
\<close>

record mc_configuration =
  l_current_max :: real
  l_current_min :: real
  l_temp_fet_start :: real
  m_invert_direction :: bool

record app_configuration =
  nrf_retry_delay_3750US :: bool
  nrf_retries :: nat
  nrf_address0 :: nat
  nrf_address1 :: nat
  nrf_address2 :: nat

datatype BiquadType = BQ_LOWPASS | BQ_HIGHPASS

definition biquad_config :: "Biquad \<Rightarrow> BiquadType \<Rightarrow> real \<Rightarrow> Biquad" where
  "biquad_config biquad type Fc =
     (let K = tan (pi * Fc);
          Q = 0.5;
          norm = 1 / (1 + K / Q + K * K);
          biquad =
            (case type of
               BQ_LOWPASS \<Rightarrow> biquad\<lparr>a0 := K * K * norm, a1 := 2 * (K * K * norm), a2 := K * K * norm\<rparr>
             | BQ_HIGHPASS \<Rightarrow> biquad\<lparr>a0 := 1 * norm, a1 := - 2 * (1 * norm), a2 := 1 * norm\<rparr>)
      in biquad\<lparr>b1 := 2 * (K * K - 1) * norm, b2 := (1 - K / Q + K * K) * norm\<rparr>)"

text \<open>The conversion of a float to an integer type truncates towards zero.\<close>

definition c_trunc :: "real \<Rightarrow> int" where
  "c_trunc x = (if 0 \<le> x then \<lfloor>x\<rfloor> else \<lceil>x\<rceil>)"

text \<open>
  \<open>app_balance_configure\<close> computes the statics of the first group of the record from
  the configuration. Left out are the statics that none of the modelled functions reads
  (\<open>loop_time\<close>, \<open>shedfactor\<close>, \<open>tt_strength_downhill\<close>, \<open>loop_overshoot_alpha\<close>,
  \<open>filtered_loop_overshoot\<close>, \<open>inactivity_timeout\<close>, \<open>is_locked\<close>).
\<close>

definition app_balance_configure ::
  "balance_config \<Rightarrow> mc_configuration \<Rightarrow> app_configuration \<Rightarrow> balance \<Rightarrow> balance" where
  "app_balance_configure conf mc app s =
     (let hertz = real (conf_hertz conf);
          \<comment> \<open>stealthy start, reverse stop\<close>
          bc = c_trunc (conf_brake_current conf);
          click = nat (c_trunc ((conf_brake_current conf - real_of_int bc) * 100));
          click = nat (c_trunc (min (real click) 30));
          ss_rest = conf_startup_speed conf - real_of_int (c_trunc (conf_startup_speed conf));
          reverse = ((ss_rest > 0.09 \<and> ss_rest < 0.11)
                     \<or> (\<not> (ss_rest > 0.09 \<and> ss_rest < 0.11) \<and> \<not> (ss_rest > 0.19 \<and> ss_rest < 0.21)
                          \<and> ss_rest > 0.29 \<and> ss_rest < 0.31));
          clicks_max = (if ss_rest > 0.09 \<and> ss_rest < 0.11 then 2
                        else if ss_rest > 0.19 \<and> ss_rest < 0.21 then 0
                        else if ss_rest > 0.29 \<and> ss_rest < 0.31 then 0
                        else 2);
          \<comment> \<open>soft start\<close>
          jerk_duration = c_trunc (conf_roll_steer_erpm_kp conf);
          jerk_strength = (if conf_yaw_current_clamp conf > 50 then 0 else conf_yaw_current_clamp conf);
          jerk_strength = (if jerk_strength < - 50 then 0 else jerk_strength);
          jerk_duration = (if jerk_duration > 100 then 0 else jerk_duration);
          \<comment> \<open>high-speed full switch faults\<close>
          fullswitch_delay = conf_fault_delay_switch_full conf div 10;
          delay_rest = int (conf_fault_delay_switch_full conf) - int (fullswitch_delay * 10);
          \<comment> \<open>guardrails of the PID gains\<close>
          kp_acc' = min (conf_kp conf) 10;
          ki_acc' = min (conf_ki conf) 0.01;
          kd_acc' = min (conf_kd conf) 1500;
          intensity = max (min (conf_booster_current conf) 1.5) 0;
          uphill = conf_torquetilt_strength conf * 10;
          uphill = (if uphill > 2.5 then 1.5 else uphill);
          uphill = (if uphill < 0 then 0 else uphill);
          impact_downhill = max (min (1.0 - conf_kd_biquad_lowpass conf / 100.0) 1.0) 0.0;
          impact_uphill = max (min (1.0 - conf_kd_biquad_highpass conf / 100.0) 1.0) 0.0;
          \<comment> \<open>D term filter\<close>
          dt_filter_freq = (if conf_kd_pt1_lowpass_frequency conf \<ge> 1
                            then real (conf_kd_pt1_lowpass_frequency conf) else 10);
          dt_filter_freq = (if dt_filter_freq > 30 then 10 else dt_filter_freq);
          dT = 1.0 / hertz;
          RC = 1.0 / (2.0 * pi * dt_filter_freq);
          \<comment> \<open>PID toning\<close>
          boost_adder = conf_booster_ramp conf / 3.5 * kp_acc' - kp_acc';
          boost_adder = (if boost_adder < 0 then 1 else boost_adder);
          boost_angle = (if conf_booster_angle conf > 3 then 1 else conf_booster_angle conf);
          boost_adder = min boost_adder 7;
          \<comment> \<open>acceleration boost\<close>
          nrf = (nrf_retry_delay_3750US app \<and> nrf_retries app = 13);
          threshold = (if nrf then real (nrf_address0 app) else 8);
          threshold2 = (if nrf then real (nrf_address1 app) else 14);
          boost_intensity = (if nrf then real (nrf_address2 app) / 10.0 else 0.5);
          boost_intensity =
            (if nrf then
               (if threshold < 4 \<or> threshold > 20 then 0
                else if threshold2 < threshold \<or> threshold2 > 20 then 0
                else if boost_intensity < 0 \<or> boost_intensity > 1 then 0
                else boost_intensity)
             else boost_intensity);
          \<comment> \<open>brake amps and derivative\<close>
          brake_amps = (if conf_roll_steer_kp conf < 10 then l_current_max mc / 2
                        else conf_roll_steer_kp conf);
          derivative_max = 100 * (brake_amps - real_of_int (c_trunc brake_amps));
          derivative_max = (if derivative_max < 10 then l_current_max mc / 2 else derivative_max);
          brake_ratio = max (min (real (conf_kd_pt1_highpass_frequency conf)) 20.0) 1.0;
          variable = conf_tiltback_variable conf / 1000
      in s\<lparr>balance_conf := conf,
            motor_timeout := ((1000.0 / hertz) / 1000.0) * 20,
            startup_step_size := conf_startup_speed conf / hertz,
            tiltback_duty_step_size := conf_tiltback_duty_speed conf / hertz,
            tiltback_hv_step_size := conf_tiltback_hv_speed conf / hertz,
            tiltback_lv_step_size := conf_tiltback_lv_speed conf / hertz,
            tiltback_return_step_size := conf_tiltback_return_speed conf / hertz,
            torquetilt_on_step_size := conf_torquetilt_on_speed conf / hertz,
            torquetilt_off_step_size := conf_torquetilt_off_speed conf / hertz,
            turntilt_step_size := conf_turntilt_speed conf / hertz,
            noseangling_step_size := conf_noseangling_speed conf / hertz,
            start_counter_clicks_max := clicks_max,
            click_current := click,
            use_reverse_stop := reverse,
            reverse_tolerance := 50000,
            reverse_stop_step_size := 100.0 / hertz,
            use_soft_start := (conf_startup_speed conf < 10),
            center_jerk_duration_ms := jerk_duration,
            center_jerk_strength := jerk_strength,
            allow_high_speed_full_switch_faults := (delay_rest \<noteq> 1),
            yaw_aggregate_target := conf_yaw_ki conf,
            tuntilt_boost_per_erpm :=
              conf_turntilt_erpm_boost conf / 100.0 / conf_turntilt_erpm_boost_end conf,
            cutback_enable := True,
            cutback_minspeed := 2000,
            roll_aggregate_threshold := 5000,
            kp_acc := kp_acc',
            ki_acc := ki_acc',
            kd_acc := kd_acc',
            tt_pid_intensity := intensity,
            tt_strength_uphill := uphill,
            integral_tt_impact_downhill := impact_downhill,
            integral_tt_impact_uphill := impact_uphill,
            d_pt1_lowpass_k := dT / (RC + dT),
            torquetilt_current_biquad :=
              biquad_config (torquetilt_current_biquad s) BQ_LOWPASS (conf_torquetilt_filter conf / hertz),
            center_boost_angle := boost_angle,
            center_boost_kp_adder := boost_adder,
            accel_boost_threshold := threshold,
            accel_boost_threshold2 := threshold2,
            accel_boost_intensity := boost_intensity,
            max_brake_amps := brake_amps,
            max_derivative := derivative_max,
            accel_biquad := biquad_config (accel_biquad s) BQ_LOWPASS (50 / hertz),
            ttt_brake_ratio := (21.0 - brake_ratio) / 4.0,
            tiltback_variable := variable,
            tiltback_variable_max_erpm :=
              (if variable > 0 then \<bar>conf_tiltback_variable_max conf / variable\<bar> else 100000),
            last_time := 0,
            erpm_sign := (if m_invert_direction mc then - 1 else 1),
            mc_current_max := l_current_max mc,
            mc_current_min := l_current_min mc,
            mc_max_temp_fet := l_temp_fet_start mc - 2,
            inactivity_timer := - 1,
            lock_state := - 1\<rparr>)"

subsection \<open>reset_vars\<close>

definition biquad_reset :: "Biquad \<Rightarrow> Biquad" where
  "biquad_reset biquad = biquad\<lparr>z1 := 0, z2 := 0\<rparr>"

definition reset_vars :: "balance \<Rightarrow> balance" where
  "reset_vars s =
     s\<lparr>integral := 0,
       last_proportional := 0,
       d_pt1_lowpass_state := 0,
       setpoint := pitch_angle s,
       setpoint_target := 0,
       noseangling_interpolated := 0,
       torquetilt_interpolated := 0,
       torquetilt_filtered_current := 0,
       torquetilt_current_biquad := biquad_reset (torquetilt_current_biquad s),
       turntilt_target := 0,
       turntilt_interpolated := 0,
       last_yaw_change := 0,
       last_yaw_angle := 0,
       yaw_aggregate := 0,
       roll_aggregate := 0,
       cutback := False,
       setpointAdjustmentType := CENTERING,
       state := RUNNING,
       current_time := 0,
       last_time := 0,
       diff_time := 0,
       brake_timeout := 0,
       current_limiting := False,
       accel_biquad := biquad_reset (accel_biquad s),
       accel_gap := 0,
       pid_value := 0,
       accel_gap_aggregate := 0,
       sss := - 1,
       accelhist := replicate 40 0,
       accelidx := 0,
       accelavg := 0,
       setpoint_target_interpolated := pitch_angle s / 2,
       kp := (if use_soft_start s then 1 else kp_acc s * 0.8),
       ki := (if use_soft_start s then 0 else ki_acc s),
       kd := 0,
       start_counter_clicks := start_counter_clicks_max s,
       center_stiffness_delay_ms := START_CENTER_DELAY_MS,
       center_jerk_counter := 0,
       center_jerk_adder := 0\<rparr>"

subsection \<open>get_setpoint_adjustment_step_size\<close>

definition get_setpoint_adjustment_step_size :: "balance \<Rightarrow> real" where
  "get_setpoint_adjustment_step_size s =
     (case setpointAdjustmentType s of
        CENTERING \<Rightarrow> startup_step_size s
      | TILTBACK_DUTY \<Rightarrow> tiltback_duty_step_size s
      | TILTBACK_HV \<Rightarrow> tiltback_hv_step_size s
      | TILTBACK_LV \<Rightarrow> tiltback_lv_step_size s
      | TILTBACK_NONE \<Rightarrow> tiltback_return_step_size s
      | REVERSESTOP \<Rightarrow> reverse_stop_step_size s)"

subsection \<open>check_faults\<close>

text \<open>
  \<open>check_faults\<close> is a sequence of checks, each of which either assigns a fault to
  \<open>state\<close> and returns true at once, or updates its timer and falls through to the
  next. Each check is a function to the pair of "returned true" and the statics;
  \<open>or_else\<close> runs the next check only when the previous one fell through.
\<close>

definition or_else :: "bool \<times> balance \<Rightarrow> (balance \<Rightarrow> bool \<times> balance) \<Rightarrow> bool \<times> balance" where
  "or_else r f = (if fst r then r else f (snd r))"

text \<open>\<^verbatim>\<open>// Check switch\<close>, \<^verbatim>\<open>// Switch fully open\<close>\<close>

definition check_faults_switch_full :: "(32 word \<Rightarrow> nat) \<Rightarrow> bool \<Rightarrow> balance \<Rightarrow> bool \<times> balance" where
  "check_faults_switch_full ST2MS ignoreTimers s =
     (if switch_state s = OFF then
        if ST2MS (current_time s - fault_switch_timer s) > conf_fault_delay_switch_full (balance_conf s)
           \<or> ignoreTimers
        then (True, s\<lparr>state := FAULT_SWITCH_FULL\<rparr>)
        else if abs_erpm s < conf_fault_adc_half_erpm (balance_conf s) * 4
                \<and> ST2MS (current_time s - fault_switch_timer s) > conf_fault_delay_switch_half (balance_conf s)
        then (True, s\<lparr>state := FAULT_SWITCH_FULL\<rparr>)
        else if abs_erpm s < conf_fault_adc_half_erpm (balance_conf s) \<and> \<bar>pitch_angle s\<bar> > 15
        then (True, s\<lparr>state := FAULT_SWITCH_FULL\<rparr>)
        else if abs_erpm s > 3000 \<and> \<not> allow_high_speed_full_switch_faults s
        then (False, s\<lparr>fault_switch_timer := current_time s\<rparr>)
        else (False, s)
      else (False, s\<lparr>fault_switch_timer := current_time s\<rparr>))"

text \<open>\<^verbatim>\<open>// Feature: Reverse-Stop\<close>\<close>

definition check_faults_reverse_stop :: "(32 word \<Rightarrow> nat) \<Rightarrow> balance \<Rightarrow> bool \<times> balance" where
  "check_faults_reverse_stop ST2MS s =
     (if setpointAdjustmentType s = REVERSESTOP then
        if switch_state s = OFF
        then (True, s\<lparr>state := FAULT_SWITCH_FULL\<rparr>)
        else if \<bar>pitch_angle s\<bar> > 15
        then (True, s\<lparr>state := FAULT_REVERSE\<rparr>)
        else if \<bar>pitch_angle s\<bar> > 10 \<and> ST2MS (current_time s - reverse_timer s) > 500
        then (True, s\<lparr>state := FAULT_REVERSE\<rparr>)
        else if \<bar>pitch_angle s\<bar> > 5 \<and> ST2MS (current_time s - reverse_timer s) > 1000
        then (True, s\<lparr>state := FAULT_REVERSE\<rparr>)
        else if reverse_total_erpm s > reverse_tolerance s * 3
        then (True, s\<lparr>state := FAULT_REVERSE\<rparr>)
        else if \<bar>pitch_angle s\<bar> < 5
        then (False, s\<lparr>reverse_timer := current_time s\<rparr>)
        else (False, s)
      else (False, s))"

text \<open>\<^verbatim>\<open>// Switch partially open and stopped\<close>\<close>

definition check_faults_switch_half :: "(32 word \<Rightarrow> nat) \<Rightarrow> bool \<Rightarrow> balance \<Rightarrow> bool \<times> balance" where
  "check_faults_switch_half ST2MS ignoreTimers s =
     (if (switch_state s = HALF \<or> switch_state s = OFF)
         \<and> abs_erpm s < conf_fault_adc_half_erpm (balance_conf s) then
        if ST2MS (current_time s - fault_switch_half_timer s) > conf_fault_delay_switch_half (balance_conf s)
           \<or> ignoreTimers
        then (True, s\<lparr>state := FAULT_SWITCH_HALF\<rparr>)
        else (False, s)
      else (False, s\<lparr>fault_switch_half_timer := current_time s\<rparr>))"

text \<open>\<^verbatim>\<open>// Check pitch angle\<close>\<close>

definition check_faults_pitch :: "(32 word \<Rightarrow> nat) \<Rightarrow> bool \<Rightarrow> balance \<Rightarrow> bool \<times> balance" where
  "check_faults_pitch ST2MS ignoreTimers s =
     (if \<bar>pitch_angle s\<bar> > conf_fault_pitch (balance_conf s) then
        if ST2MS (current_time s - fault_angle_pitch_timer s) > conf_fault_delay_pitch (balance_conf s)
           \<or> ignoreTimers
        then (True, s\<lparr>state := FAULT_ANGLE_PITCH\<rparr>)
        else (False, s)
      else (False, s\<lparr>fault_angle_pitch_timer := current_time s\<rparr>))"

text \<open>\<^verbatim>\<open>// Check roll angle\<close>\<close>

definition check_faults_roll :: "(32 word \<Rightarrow> nat) \<Rightarrow> bool \<Rightarrow> balance \<Rightarrow> bool \<times> balance" where
  "check_faults_roll ST2MS ignoreTimers s =
     (if \<bar>roll_angle s\<bar> > conf_fault_roll (balance_conf s) then
        if ST2MS (current_time s - fault_angle_roll_timer s) > conf_fault_delay_roll (balance_conf s)
           \<or> ignoreTimers
        then (True, s\<lparr>state := FAULT_ANGLE_ROLL\<rparr>)
        else (False, s)
      else (False, s\<lparr>fault_angle_roll_timer := current_time s\<rparr>))"

text \<open>\<^verbatim>\<open>// Check for duty\<close>\<close>

definition check_faults_duty :: "(32 word \<Rightarrow> nat) \<Rightarrow> bool \<Rightarrow> balance \<Rightarrow> bool \<times> balance" where
  "check_faults_duty ST2MS ignoreTimers s =
     (if abs_duty_cycle s > conf_fault_duty (balance_conf s) then
        if ST2MS (current_time s - fault_duty_timer s) > conf_fault_delay_duty (balance_conf s)
           \<or> ignoreTimers
        then (True, s\<lparr>state := FAULT_DUTY\<rparr>)
        else (False, s)
      else (False, s\<lparr>fault_duty_timer := current_time s\<rparr>))"

definition check_faults :: "(32 word \<Rightarrow> nat) \<Rightarrow> bool \<Rightarrow> balance \<Rightarrow> bool \<times> balance" where
  "check_faults ST2MS ignoreTimers s =
     or_else (or_else (or_else (or_else (or_else
       (check_faults_switch_full ST2MS ignoreTimers s)
       (check_faults_reverse_stop ST2MS))
       (check_faults_switch_half ST2MS ignoreTimers))
       (check_faults_pitch ST2MS ignoreTimers))
       (check_faults_roll ST2MS ignoreTimers))
       (check_faults_duty ST2MS ignoreTimers)"

subsection \<open>calculate_setpoint_target\<close>

definition tiltback_angle :: "balance \<Rightarrow> real \<Rightarrow> real" where
  \<comment> \<open>\<^verbatim>\<open>if (erpm > 0) setpoint_target = angle; else setpoint_target = -angle;\<close>\<close>
  "tiltback_angle s angle = (if erpm s > 0 then angle else - angle)"

definition calculate_setpoint_target :: "(32 word \<Rightarrow> nat) \<Rightarrow> readings \<Rightarrow> balance \<Rightarrow> balance" where
  "calculate_setpoint_target ST2MS r s0 =
     (let s = (if GET_INPUT_VOLTAGE r < conf_tiltback_hv (balance_conf s0)
               then s0\<lparr>tb_highvoltage_timer := current_time s0\<rparr> else s0);
          conf = balance_conf s
      in
      if setpointAdjustmentType s = CENTERING then
        (if setpoint_target_interpolated s \<noteq> setpoint_target s then
           s\<lparr>state := RUNNING, softstart_timer := current_time s\<rparr>
         else if ST2MS (current_time s - softstart_timer s) > START_GRACE_PERIOD_MS then
           s\<lparr>setpointAdjustmentType := TILTBACK_NONE\<rparr>
         else if use_soft_start s = False then
           s\<lparr>setpointAdjustmentType := TILTBACK_NONE\<rparr>
         else s)
      else if setpointAdjustmentType s = REVERSESTOP then
        (let s1 = s\<lparr>reverse_total_erpm := reverse_total_erpm s + erpm s\<rparr> in
         if \<bar>reverse_total_erpm s1\<bar> > reverse_tolerance s1 then
           s1\<lparr>setpoint_target := 10 * (\<bar>reverse_total_erpm s1\<bar> - reverse_tolerance s1) / 50000\<rparr>
         else if \<bar>reverse_total_erpm s1\<bar> \<le> reverse_tolerance s1 / 2 then
           (if erpm s1 \<ge> 0 then
              s1\<lparr>setpointAdjustmentType := TILTBACK_NONE,
                 reverse_total_erpm := 0,
                 setpoint_target := 0,
                 integral := 0\<rparr>
            else s1)
         else s1)
      else if abs_duty_cycle s > conf_tiltback_duty conf then
        s\<lparr>setpoint_target := tiltback_angle s (conf_tiltback_duty_angle conf),
          setpointAdjustmentType := TILTBACK_DUTY,
          state := RUNNING_TILTBACK_DUTY\<rparr>
      else if GET_INPUT_VOLTAGE r > conf_tiltback_hv conf then
        (if ST2MS (current_time s - fault_switch_timer s) > 500
            \<or> GET_INPUT_VOLTAGE r > conf_tiltback_hv conf + 1
         then
           s\<lparr>setpoint_target := tiltback_angle s (conf_tiltback_hv_angle conf),
             setpointAdjustmentType := TILTBACK_HV,
             state := RUNNING_TILTBACK_HIGH_VOLTAGE,
             effects := effects s @ [Beep_alert 3 False]\<rparr>
         else
           s\<lparr>setpointAdjustmentType := TILTBACK_NONE,
             state := RUNNING,
             effects := effects s @ [Beep_alert 3 False]\<rparr>)
      else if GET_INPUT_VOLTAGE r < conf_tiltback_lv conf then
        s\<lparr>setpoint_target := tiltback_angle s (conf_tiltback_lv_angle conf),
          setpointAdjustmentType := TILTBACK_LV,
          state := RUNNING_TILTBACK_LOW_VOLTAGE,
          effects := effects s @ [Beep_alert 3 False]\<rparr>
      else if mc_interface_temp_fet_filtered r > mc_max_temp_fet s then
        (if mc_interface_temp_fet_filtered r > mc_max_temp_fet s + 1 then
           s\<lparr>setpoint_target := tiltback_angle s (conf_tiltback_lv_angle conf),
             setpointAdjustmentType := TILTBACK_HV,
             state := RUNNING_TILTBACK_LOW_VOLTAGE,
             effects := effects s @ [Beep_alert 3 True]\<rparr>
         else
           s\<lparr>setpointAdjustmentType := TILTBACK_NONE,
             state := RUNNING,
             effects := effects s @ [Beep_alert 3 True]\<rparr>)
      else if use_reverse_stop s \<and> erpm s < 0 then
        s\<lparr>setpointAdjustmentType := REVERSESTOP,
          reverse_timer := current_time s,
          reverse_total_erpm := 0,
          setpoint_target := 0,
          state := RUNNING\<rparr>
      else
        s\<lparr>setpointAdjustmentType := TILTBACK_NONE,
          setpoint_target := 0,
          state := RUNNING\<rparr>)"

subsection \<open>calculate_setpoint_interpolated\<close>

definition calculate_setpoint_interpolated :: "balance \<Rightarrow> balance" where
  "calculate_setpoint_interpolated s =
     (if setpoint_target_interpolated s \<noteq> setpoint_target s then
        if \<bar>setpoint_target s - setpoint_target_interpolated s\<bar> < get_setpoint_adjustment_step_size s
        then s\<lparr>setpoint_target_interpolated := setpoint_target s\<rparr>
        else if setpoint_target s - setpoint_target_interpolated s > 0
        then s\<lparr>setpoint_target_interpolated :=
                 setpoint_target_interpolated s + get_setpoint_adjustment_step_size s\<rparr>
        else s\<lparr>setpoint_target_interpolated :=
                 setpoint_target_interpolated s - get_setpoint_adjustment_step_size s\<rparr>
      else s)"

subsection \<open>apply_noseangling\<close>

definition apply_noseangling :: "balance \<Rightarrow> balance" where
  "apply_noseangling s =
     (let conf = balance_conf s;
          noseangling_target =
            (if erpm s > 0 \<and> torquetilt_interpolated s < - 1 then 0
             else if erpm s < 0 \<and> torquetilt_interpolated s > 1 then 0
             else if \<bar>erpm s\<bar> > tiltback_variable_max_erpm s
               then \<bar>conf_tiltback_variable_max conf\<bar> * SIGN (erpm s)
             else tiltback_variable s * erpm s);
          noseangling_target =
            (if erpm s > conf_tiltback_constant_erpm conf
               then noseangling_target + conf_tiltback_constant conf
             else if erpm s < - conf_tiltback_constant_erpm conf
               then noseangling_target + - conf_tiltback_constant conf
             else noseangling_target);
          interpolated =
            (if \<bar>noseangling_target - noseangling_interpolated s\<bar> < noseangling_step_size s
               then noseangling_target
             else if noseangling_target - noseangling_interpolated s > 0
               then noseangling_interpolated s + noseangling_step_size s
             else noseangling_interpolated s - noseangling_step_size s)
      in s\<lparr>noseangling_interpolated := interpolated,
            setpoint := setpoint s + interpolated\<rparr>)"

subsection \<open>apply_torquetilt\<close>

definition biquad_process :: "Biquad \<Rightarrow> real \<Rightarrow> real \<times> Biquad" where
  "biquad_process biquad inp =
     (let out = inp * a0 biquad + z1 biquad
      in (out, biquad\<lparr>z1 := inp * a1 biquad + z2 biquad - b1 biquad * out,
                       z2 := inp * a2 biquad - b2 biquad * out\<rparr>))"

text \<open>
  \<^verbatim>\<open>float measured_acc = fmaxf(acceleration, -5);\<close>
  \<^verbatim>\<open>measured_acc = fminf(acceleration, 5);\<close>
  The second statement assigns the variable again, from \<open>acceleration\<close>.
\<close>

definition measured_acc :: "real \<Rightarrow> real" where
  "measured_acc acc =
     (let m = max acc (- 5);
          m = min acc 5
      in m)"

definition expected_acc :: "balance \<Rightarrow> real \<Rightarrow> real" where
  \<comment> \<open>the argument is the filtered current, \<open>torquetilt_filtered_current\<close>\<close>
  "expected_acc s current =
     (let torque_sign = SIGN current;
          abs_torque = \<bar>current\<bar>;
          torque_offset = conf_torquetilt_start_current (balance_conf s);
          accel_factor = conf_yaw_kd (balance_conf s);
          accel_factor2 = conf_yaw_kd (balance_conf s) * 1.3
      in if abs_torque < 25 then
           (current - SIGN (erpm s) * torque_offset) / accel_factor
         else
           (torque_sign * 25 - SIGN (erpm s) * torque_offset) / accel_factor
             + torque_sign * (abs_torque - 25) / accel_factor2)"

definition acc_diff :: "balance \<Rightarrow> real \<Rightarrow> real" where
  "acc_diff s current = expected_acc s current - measured_acc (acceleration s)"

text \<open>
  The smoothing of \<open>accel_gap\<close>; the result is the new gap and the local
  \<open>static_climb\<close>. \<^verbatim>\<open>fabsf(accel_gap > 1)\<close> is the absolute value of the
  comparison's result, 1 or 0.
\<close>

definition smooth_accel_gap :: "balance \<Rightarrow> real \<Rightarrow> real \<Rightarrow> real \<times> bool" where
  "smooth_accel_gap s expected diff =
     (let gap_above_1 = (\<bar>if accel_gap s > 1 then 1 else 0 :: real\<bar> \<noteq> 0) in
      if abs_erpm s > 2000 then (0.9 * accel_gap s + 0.1 * diff, False)
      else if abs_erpm s > 1000 then (0.95 * accel_gap s + 0.05 * diff, False)
      else if abs_erpm s > 250 then (0.98 * accel_gap s + 0.02 * diff, False)
      else if \<bar>expected\<bar> < 1 then (0, False)
      else if \<bar>expected\<bar> < 1.5 then
        (if gap_above_1 then (0.9 * accel_gap s + 0.1 * diff, True)
         else (0.99 * accel_gap s + 0.01 * diff, False))
      else
        (if gap_above_1 then (0.9 * accel_gap s + 0.1 * diff, True)
         else (0.95 * accel_gap s + 0.05 * diff, False)))"

text \<open>
  The target before smoothing, \<open>new_ttt\<close>, and the local \<open>cutback_response\<close>. The
  argument \<open>gap\<close> is the new \<open>accel_gap\<close>.
\<close>

definition new_torquetilt_target :: "balance \<Rightarrow> real \<Rightarrow> bool \<Rightarrow> real \<times> bool" where
  "new_torquetilt_target s gap braking =
     (let torquetilt_strength = tt_strength_uphill s;
          new_ttt = torquetilt_strength * gap
      in if cutback s \<and> abs_erpm s > cutback_minspeed s then
           (if SIGN new_ttt = SIGN (erpm s) then (new_ttt / 4, True) else (new_ttt * 1.5, True))
         else if braking \<and> abs_erpm s > 1000 then
           (if SIGN (proportional s) \<noteq> SIGN (erpm s) then
              (let downhill_damper =
                     (if (erpm s > 1000 \<and> gap < - 1) \<or> (erpm s < - 1000 \<and> gap > 1)
                      then 1 + \<bar>gap\<bar> / 2 else 1)
               in (new_ttt + (pitch_angle s - setpoint s) / ttt_brake_ratio s / downhill_damper, False))
            else (new_ttt, False))
         else (new_ttt, False))"

text \<open>
  The decision table of the step size. The result is the step and the value written to
  the debug static \<open>sss\<close>. The arguments \<open>gap\<close>, \<open>aggregate\<close> and \<open>target\<close> are the
  new \<open>accel_gap\<close>, \<open>accel_gap_aggregate\<close> and \<open>torquetilt_target\<close>;
  \<open>torquetilt_interpolated\<close> is that of the previous iteration.
\<close>

definition static_climb_step :: "bool \<Rightarrow> real \<Rightarrow> real \<times> real \<Rightarrow> real \<times> real" where
  "static_climb_step static_climb code r = (if static_climb then (fst r * 1.5, code) else r)"

definition torquetilt_step_size ::
  "balance \<Rightarrow> real \<Rightarrow> real \<Rightarrow> real \<Rightarrow> bool \<Rightarrow> bool \<Rightarrow> bool \<Rightarrow> real \<times> real" where
  "torquetilt_step_size s gap aggregate target braking static_climb cutback_response =
     (let on = torquetilt_on_step_size s; off = torquetilt_off_step_size s;
          interp = torquetilt_interpolated s
      in
      if abs_erpm s < 500 \<and> \<bar>gap\<bar> < 2 then (off, 0)
      else if cutback_response then
        (if \<not> braking then (on / 2, 28) else (on, 18))
      else if erpm s > 0 then
        (if interp < 0 then
           (if interp < target then
              (if gap > 1 \<and> aggregate > 20 then (on, 17)
               else if pitch_angle s < setpoint s \<and> pid_value s > 0 \<and> gap > 0.5 then (on, 11)
               else (off, 21))
            else
              (if \<bar>gap\<bar> < 0.5 then (off, 23)
               else if braking then (on / 2, 1)
               else (on, 2)))
         else
           (if target > - 3 \<and> interp > target then
              (if abs_erpm s < 1000 \<and> pitch_angle s < 0.5 then (off, 29)
               else if abs_erpm s < 2000 \<and> interp - target > 2 then (on / 3, 4)
               else if abs_erpm s > 2000 \<and> target < 0 then (on / 2, 19)
               else (off, 22))
            else
              static_climb_step static_climb 31
                (if \<bar>gap\<bar> < 0.5 then (off, 27)
                 else if abs_erpm s < 1000 then (on / 2, 5)
                 else (on, 6))))
      else
        (if interp > 0 then
           (if interp > target \<and> target > - 3 then
              (if pitch_angle s > setpoint s \<and> pid_value s < 0 \<and> gap < 0 then (on, 12)
               else (off, 24))
            else
              (if braking then (on / 2, 13) else (on, 14)))
         else
           (if target < 3 \<and> interp < target then
              (if abs_erpm s < 1000 \<and> pitch_angle s > - 0.5 then (off, 8)
               else (off, 25))
            else
              static_climb_step static_climb 32
                (if gap = 0 then (off, 26)
                 else if abs_erpm s < 1000 then (on / 2, 9)
                 else (on, 10)))))"

text \<open>
  The statics that \<open>apply_torquetilt\<close> writes when the strength is not 0, computed in
  the order of the source from the statics \<open>s\<close> at entry: \<open>sss\<close>,
  \<open>torquetilt_filtered_current\<close>, \<open>torquetilt_current_biquad\<close>, \<open>accel_gap\<close>,
  \<open>accel_gap_aggregate\<close>, \<open>torquetilt_target\<close> and \<open>torquetilt_interpolated\<close>.
\<close>

record torquetilt =
  tt_sss :: real
  tt_filtered_current :: real
  tt_current_biquad :: Biquad
  tt_accel_gap :: real
  tt_accel_gap_aggregate :: real
  tt_target :: real
  tt_interpolated :: real

definition torquetilt_values :: "balance \<Rightarrow> torquetilt" where
  "torquetilt_values s =
     (let filtered = biquad_process (torquetilt_current_biquad s) (motor_current s);
          current = fst filtered;
          torque_sign = SIGN current;
          braking = (abs_erpm s > 250 \<and> torque_sign \<noteq> SIGN (erpm s));
          expected = expected_acc s current;
          diff = acc_diff s current;
          smoothed = smooth_accel_gap s expected diff;
          gap = fst smoothed;
          static_climb = snd smoothed;
          aggregate = (if SIGN (accel_gap_aggregate s) = SIGN gap
                       then accel_gap_aggregate s + gap else 0);
          ttt = new_torquetilt_target s gap braking;
          cutback_response = snd ttt;
          target = torquetilt_target s * 0.95 + 0.05 * fst ttt;
          target = min target (conf_torquetilt_angle_limit (balance_conf s));
          target = max target (- conf_torquetilt_angle_limit (balance_conf s));
          step = torquetilt_step_size s gap aggregate target braking static_climb cutback_response;
          step_size = fst step;
          interp =
            (if \<bar>target - torquetilt_interpolated s\<bar> < step_size then target
             else if target - torquetilt_interpolated s > 0
               then torquetilt_interpolated s + step_size
             else torquetilt_interpolated s - step_size)
      in \<lparr>tt_sss = snd step,
          tt_filtered_current = current,
          tt_current_biquad = snd filtered,
          tt_accel_gap = gap,
          tt_accel_gap_aggregate = aggregate,
          tt_target = target,
          tt_interpolated = interp\<rparr>)"

definition apply_torquetilt :: "balance \<Rightarrow> balance" where
  "apply_torquetilt s =
     (if conf_torquetilt_strength (balance_conf s) = 0 then s
      else
        s\<lparr>sss := tt_sss (torquetilt_values s),
          torquetilt_filtered_current := tt_filtered_current (torquetilt_values s),
          torquetilt_current_biquad := tt_current_biquad (torquetilt_values s),
          accel_gap := tt_accel_gap (torquetilt_values s),
          accel_gap_aggregate := tt_accel_gap_aggregate (torquetilt_values s),
          torquetilt_target := tt_target (torquetilt_values s),
          torquetilt_interpolated := tt_interpolated (torquetilt_values s),
          setpoint := setpoint s + tt_interpolated (torquetilt_values s)\<rparr>)"

subsection \<open>apply_turntilt\<close>

text \<open>
  The cutback detector is the condition
  \<^verbatim>\<open>banked_turn && (fabsf(roll_aggregate) > roll_aggregate_threshold) && (abs_yaw_scaled > 5) && ((yaw_change * 100 / roll_angle) < 1)\<close>.
  C evaluates the conjuncts from the left and stops at the first false one, so the
  quotient is computed only when the three conjuncts before it hold. A float division
  by zero does not trap, it yields an infinity or NaN; to make "the divisor is zero
  where the quotient is computed" a value of the model, the detector returns \<open>None\<close>
  there and \<open>apply_turntilt\<close> passes the \<open>None\<close> on.
\<close>

definition cutback_detector :: "balance \<Rightarrow> bool option" where
  "cutback_detector s =
     (let abs_yaw_scaled = abs_yaw_change s * 100;
          banked_turn = (SIGN (yaw_change s) = SIGN (roll_angle s))
      in if banked_turn \<and> \<bar>roll_aggregate s\<bar> > roll_aggregate_threshold s \<and> abs_yaw_scaled > 5
         then (if roll_angle s = 0 then None
               else Some (yaw_change s * 100 / roll_angle s < 1))
         else Some False)"

text \<open>The target of the else-branch of the cut zone, after the detector has set \<open>cutback\<close>.\<close>

definition turntilt_desired :: "balance \<Rightarrow> balance" where
  "turntilt_desired s =
     (let conf = balance_conf s;
          target = abs_yaw_change s * conf_turntilt_strength conf;
          boost = (if abs_erpm s < conf_turntilt_erpm_boost_end conf
                   then 1.0 + abs_erpm s * tuntilt_boost_per_erpm s
                   else 1.0 + conf_turntilt_erpm_boost conf / 100.0);
          target = target * boost;
          aggregate_damper = (if abs_erpm s < 2000 then 0.5 else 1.0);
          boost = 1 + aggregate_damper * \<bar>yaw_aggregate s\<bar> / yaw_aggregate_target s;
          boost = min boost 2;
          target = target * boost;
          target = min target (conf_turntilt_angle_limit conf);
          target = (if abs_erpm s < conf_turntilt_start_erpm conf then 0 else target * SIGN (erpm s));
          differ = (SIGN (torquetilt_target s) \<noteq> SIGN target);
          atr_min = (if differ then 1 else 2);
          atr_max = (if differ then 4 else 5);
          atr_scaling = (atr_max - \<bar>torquetilt_target s\<bar>) / (atr_max - atr_min);
          heavy_torque = (\<bar>torquetilt_target s\<bar> > atr_min \<and> \<not> cutback s \<and> atr_scaling < 0);
          target =
            (if \<bar>torquetilt_target s\<bar> > atr_min then
               (if cutback s then - target
                else target * (if atr_scaling < 0 then 0 else atr_scaling))
             else (if cutback s then 0 else target));
          heavy_pitch = (\<bar>pitch_angle s - noseangling_interpolated s\<bar> > 4)
      in s\<lparr>turntilt_target := (if heavy_pitch then 0 else target),
            yaw_aggregate := (if heavy_pitch \<or> heavy_torque then 0 else yaw_aggregate s)\<rparr>)"

definition turntilt_interpolate :: "balance \<Rightarrow> balance" where
  "turntilt_interpolate s =
     (let interp =
            (if \<bar>turntilt_target s - turntilt_interpolated s\<bar> < turntilt_step_size s
               then turntilt_target s
             else if turntilt_target s - turntilt_interpolated s > 0
               then turntilt_interpolated s + turntilt_step_size s
             else turntilt_interpolated s - turntilt_step_size s)
      in s\<lparr>turntilt_interpolated := interp, setpoint := setpoint s + interp\<rparr>)"

definition apply_turntilt :: "balance \<Rightarrow> balance option" where
  "apply_turntilt s =
     (let abs_yaw_scaled = abs_yaw_change s * 100 in
      if abs_yaw_scaled < conf_turntilt_start_angle (balance_conf s) \<or> state s \<noteq> RUNNING
      then Some (turntilt_interpolate (s\<lparr>turntilt_target := 0\<rparr>))
      else if cutback_enable s then
        (case cutback_detector s of
           None \<Rightarrow> None
         | Some c \<Rightarrow> Some (turntilt_interpolate (turntilt_desired (s\<lparr>cutback := c\<rparr>))))
      else Some (turntilt_interpolate (turntilt_desired s)))"

subsection \<open>balance_thread: reading the values of the iteration\<close>

text \<open>
  \<^verbatim>\<open>// Update times\<close>. The loop-time metrics \<open>filtered_diff_time\<close>, \<open>loop_overshoot\<close>
  and \<open>filtered_loop_overshoot\<close>, which only set the length of the sleep at the end of
  the iteration, are left out.
\<close>

definition update_times :: "readings \<Rightarrow> balance \<Rightarrow> balance" where
  "update_times r s =
     (let now = chVTGetSystemTimeX r;
          last = (if last_time s = 0 then now else last_time s)
      in s\<lparr>current_time := now, diff_time := now - last, last_time := now\<rparr>)"

text \<open>\<^verbatim>\<open>// Read values for GUI\<close>, \<^verbatim>\<open>// Get the values we want\<close> (the gyro rates are read and not used)\<close>

definition get_values :: "readings \<Rightarrow> balance \<Rightarrow> balance" where
  "get_values r s =
     s\<lparr>motor_current := mc_interface_get_tot_current_directional_filtered r,
       motor_position := mc_interface_get_pid_pos_now r,
       last_pitch_angle := pitch_angle s,
       pitch_angle := RAD2DEG_f (imu_get_pitch r),
       roll_angle := RAD2DEG_f (imu_get_roll r),
       abs_roll_angle := \<bar>RAD2DEG_f (imu_get_roll r)\<bar>,
       duty_cycle := mc_interface_get_duty_cycle_now r,
       abs_duty_cycle := \<bar>mc_interface_get_duty_cycle_now r\<bar>,
       erpm := mc_interface_get_rpm r,
       abs_erpm := \<bar>mc_interface_get_rpm r\<bar>\<rparr>"

text \<open>\<^verbatim>\<open>// Turn tilt:\<close>\<close>

definition turn_tilt_yaw :: "readings \<Rightarrow> balance \<Rightarrow> balance" where
  "turn_tilt_yaw r s =
     (let yaw = imu_get_yaw r * 180 / pi;
          new_change = yaw - last_yaw_angle s;
          unchanged = (new_change = 0 \<or> \<bar>new_change\<bar> > 100);
          new_change = (if unchanged then last_yaw_change s else new_change);
          last_change = new_change;
          new_change = min new_change 0.10;
          new_change = max new_change (- 0.10);
          change = yaw_change s * 0.8 + 0.2 * new_change;
          aggregate = (if SIGN change \<noteq> SIGN (yaw_aggregate s) then 0 else yaw_aggregate s);
          aggregate = (if \<bar>change\<bar> > 0.04 \<and> \<not> unchanged then aggregate + change else aggregate)
      in s\<lparr>yaw_angle := yaw,
            last_yaw_change := last_change,
            last_yaw_angle := yaw,
            yaw_change := change,
            abs_yaw_change := \<bar>change\<bar>,
            yaw_aggregate := aggregate\<rparr>)"

text \<open>\<^verbatim>\<open>// Cutbacks:\<close>\<close>

definition cutbacks_roll :: "balance \<Rightarrow> balance" where
  "cutbacks_roll s =
     (if abs_roll_angle s > 8
      then s\<lparr>roll_aggregate := roll_aggregate s + roll_angle s\<rparr>
      else s\<lparr>roll_aggregate := 0\<rparr>)"

text \<open>
  The acceleration and its moving average over the ring \<open>accelhist\<close>:
  \<^verbatim>\<open>accelavg += (acceleration_raw - accelhist[accelidx]) / ACCEL_ARRAY_SIZE;\<close>
  \<^verbatim>\<open>accelhist[accelidx] = acceleration_raw;\<close>
  \<^verbatim>\<open>accelidx++; if (accelidx == ACCEL_ARRAY_SIZE) accelidx = 0;\<close>
\<close>

definition accel_raw :: "readings \<Rightarrow> balance \<Rightarrow> balance" where
  "accel_raw r s =
     (let smooth_erpm = real_of_int (erpm_sign s) * mcpwm_foc_get_smooth_erpm r
      in s\<lparr>acceleration_raw := smooth_erpm - last_erpm s, last_erpm := smooth_erpm\<rparr>)"

definition accel_average :: "balance \<Rightarrow> balance" where
  "accel_average s =
     (let avg = accelavg s
                  + (acceleration_raw s - accelhist s ! accelidx s) / real ACCEL_ARRAY_SIZE;
          hist = (accelhist s)[accelidx s := acceleration_raw s];
          idx = accelidx s + 1;
          idx = (if idx = ACCEL_ARRAY_SIZE then 0 else idx)
      in s\<lparr>accelavg := avg, accelhist := hist, accelidx := idx, acceleration := avg\<rparr>)"

subsection \<open>check_adcs\<close>

definition check_adcs :: "readings \<Rightarrow> balance \<Rightarrow> SwitchState \<times> balance" where
  "check_adcs r s0 =
     (let s = s0\<lparr>adc1 := real (ADC_Value_EXT r) / 4095 * V_REG r,
                 adc2 := real (ADC_Value_EXT2 r) / 4095 * V_REG r\<rparr>;
          conf = balance_conf s;
          sw_state =
            (if conf_fault_adc1 conf = 0 \<and> conf_fault_adc2 conf = 0 then ON
             else if conf_fault_adc2 conf = 0 then
               (if adc1 s > conf_fault_adc1 conf then ON else OFF)
             else if conf_fault_adc1 conf = 0 then
               (if adc2 s > conf_fault_adc2 conf then ON else OFF)
             else
               (if adc1 s > conf_fault_adc1 conf \<and> adc2 s > conf_fault_adc2 conf then ON
                else if adc1 s > conf_fault_adc1 conf \<or> adc2 s > conf_fault_adc2 conf then HALF
                else OFF));
          beep =
            (if sw_state = OFF then
               (if abs_erpm s > conf_fault_adc_half_erpm conf
                   \<and> BalanceState_val (state s) \<ge> BalanceState_val RUNNING
                   \<and> BalanceState_val (state s) \<le> BalanceState_val RUNNING_TILTBACK_LOW_VOLTAGE
                then Beep_on True else Beep_off False)
             else Beep_off False)
      in (sw_state, s\<lparr>effects := effects s @ [beep]\<rparr>))"

definition read_iteration :: "readings \<Rightarrow> balance \<Rightarrow> balance" where
  "read_iteration r s =
     (let s = update_times r s;
          s = get_values r s;
          s = turn_tilt_yaw r s;
          s = cutbacks_roll s;
          s = accel_raw r s;
          s = accel_average s;
          sw = check_adcs r s
      in (snd sw)\<lparr>switch_state := fst sw\<rparr>)"

subsection \<open>balance_thread: the PID\<close>

text \<open>\<^verbatim>\<open>// Do PID maths\<close>: proportional, integral and filtered derivative.\<close>

definition pid_maths :: "balance \<Rightarrow> balance" where
  "pid_maths s =
     (let prop = setpoint s - pitch_angle s;
          sum = integral s + prop;
          max_impact_erpm = 2500;
          starting_impact = 0.3;
          tt_impact =
            (if torquetilt_interpolated s < 0 then integral_tt_impact_downhill s
             else if abs_erpm s < max_impact_erpm then
               (let erpm_scaling = max starting_impact (abs_erpm s / max_impact_erpm)
                in 1.0 - (1.0 - integral_tt_impact_uphill s) * erpm_scaling)
             else integral_tt_impact_uphill s);
          sum = sum - torquetilt_interpolated s * tt_impact;
          d = last_pitch_angle s - pitch_angle s;
          lowpass = d_pt1_lowpass_state s + d_pt1_lowpass_k s * (d - d_pt1_lowpass_state s)
      in s\<lparr>proportional := prop,
            integral := sum,
            d_pt1_lowpass_state := lowpass,
            derivative := lowpass\<rparr>)"

text \<open>
  The gain scheduling, from \<^verbatim>\<open>float kp_target, ki_target, kd_target;\<close> to the end of
  the \<open>REVERSESTOP\<close> branch. The targets are the capped gains \<open>kp_acc\<close>, \<open>ki_acc\<close>,
  \<open>kd_acc\<close> times the torque-tilt multipliers; the applied gains \<open>kp\<close>, \<open>ki\<close>, \<open>kd\<close>
  move towards the targets.
\<close>

definition max_di_mult :: real where
  "max_di_mult = 1.7"

definition p_multiplier :: "balance \<Rightarrow> real" where
  "p_multiplier s =
     (if \<bar>torquetilt_interpolated s\<bar> > 2
      then min (1 + \<bar>torquetilt_interpolated s\<bar> / 6 * tt_pid_intensity s) 2
      else 1)"

definition di_multiplier :: "balance \<Rightarrow> real" where
  "di_multiplier s =
     (if \<bar>torquetilt_interpolated s\<bar> > 2
      then min (1 + (\<bar>torquetilt_interpolated s\<bar> / 6 * tt_pid_intensity s) / 2) max_di_mult
      else 1)"

definition kd_target :: "balance \<Rightarrow> real" where
  "kd_target s =
     (if \<bar>proportional s\<bar> > center_boost_angle s + 0.5
      then kd_acc s * di_multiplier s / max_di_mult
      else kd_acc s)"

definition pid_gains :: "balance \<Rightarrow> balance" where
  "pid_gains s =
     (let kp_target = kp_acc s * p_multiplier s;
          ki_target = ki_acc s * di_multiplier s
      in if SetpointAdjustmentType_val (setpointAdjustmentType s)
              \<ge> SetpointAdjustmentType_val TILTBACK_NONE then
           (if kp_target > kp s then
              s\<lparr>kp := kp s * 0.98 + kp_target * 0.02,
                ki := ki s * 0.98 + ki_target * 0.02,
                kd := kd s * 0.98 + kd_target s * 0.02\<rparr>
            else
              s\<lparr>kp := kp s * 0.998 + kp_target * 0.002,
                ki := ki s * 0.998 + ki_target * 0.002,
                kd := kd s * 0.98 + kd_target s * 0.02\<rparr>)
         else if setpointAdjustmentType s = CENTERING then
           s\<lparr>kp := kp s * 0.995 + kp_target * 0.005,
             ki := ki s * 0.995 + ki_target * 0.005,
             kd := kd s * 0.995 + kd_target s * 0.005\<rparr>
         else if setpointAdjustmentType s = REVERSESTOP then
           s\<lparr>integral := 0,
             kp := kp s * 0.99 + 2 * 0.01,
             kd := kd s * 0.99 + 400 * 0.01,
             ki := 0\<rparr>
         else s)"

text \<open>C integer division truncates towards zero.\<close>

definition c_div :: "int \<Rightarrow> int \<Rightarrow> int" where
  "c_div a b = sgn a * sgn b * (\<bar>a\<bar> div \<bar>b\<bar>)"

text \<open>The proportional part while \<open>center_stiffness_delay_ms\<close> counts down, with the center jerk.\<close>

definition pid_prop_starting :: "balance \<Rightarrow> real \<times> balance" where
  "pid_prop_starting s =
     (let abs_prop = \<bar>proportional s\<bar>;
          center_boost = min abs_prop (center_boost_angle s);
          pid_prop = kp s * proportional s
            + center_boost * center_boost_kp_adder s * SIGN (proportional s)
                * real_of_int (START_CENTER_DELAY_MS - center_stiffness_delay_ms s)
                / real_of_int START_CENTER_DELAY_MS;
          delay = center_stiffness_delay_ms s - 1;
          adder =
            (if center_jerk_counter s > c_div (center_jerk_duration_ms s) 2
             then center_jerk_adder s * 0.95 + center_jerk_strength s * 0.05
             else center_jerk_adder s * 0.95 - center_jerk_strength s * 0.05)
      in if center_jerk_counter s < center_jerk_duration_ms s then
           (pid_prop + adder,
            s\<lparr>center_stiffness_delay_ms := delay,
              center_jerk_adder := adder,
              center_jerk_counter := center_jerk_counter s + 1,
              effects := effects s @ (if center_jerk_counter s = 0 then [Beep_alert 1 False] else [])\<rparr>)
         else (pid_prop, s\<lparr>center_stiffness_delay_ms := delay\<rparr>))"

text \<open>The proportional part afterwards, with the acceleration boost.\<close>

definition pid_prop_riding :: "balance \<Rightarrow> real" where
  "pid_prop_riding s =
     (let abs_prop = \<bar>proportional s\<bar>;
          braking = (SIGN (proportional s) \<noteq> SIGN (erpm s));
          center_boost = min abs_prop (center_boost_angle s);
          pid_prop = kp s * proportional s
            + center_boost * center_boost_kp_adder s * SIGN (proportional s);
          accel_boost =
            (if abs_prop > accel_boost_threshold s \<and> \<not> braking then
               (abs_prop - accel_boost_threshold s) * kp s * accel_boost_intensity s
                 + (if abs_prop > accel_boost_threshold2 s
                    then (abs_prop - accel_boost_threshold2 s) * kp s * accel_boost_intensity s
                    else 0)
             else 0)
      in pid_prop + accel_boost * SIGN (proportional s))"

text \<open>\<^verbatim>\<open>// Treat P+D together\<close>: the braking limit on the sum of the P and D parts.\<close>

definition limit_pd :: "balance \<Rightarrow> real \<Rightarrow> real \<Rightarrow> real" where
  "limit_pd s pid_prop pid_derivative =
     (let new_pd_value = pid_prop + pid_derivative in
      if SIGN (erpm s) \<noteq> SIGN new_pd_value then
        (let pid_max = max (max_brake_amps s) \<bar>pid_prop\<bar>;
             tt = \<bar>torquetilt_interpolated s\<bar>;
             pid_max = (if tt > 2 then pid_max * (0.75 + tt / 8) else pid_max);
             pid_max = (if abs_erpm s > 2000 then pid_max * (0.8 + abs_erpm s / 10000) else pid_max)
         in if \<bar>new_pd_value\<bar> > pid_max then SIGN new_pd_value * pid_max else new_pd_value)
      else new_pd_value)"

definition pid_soft_start :: "balance \<Rightarrow> balance" where
  \<comment> \<open>\<^verbatim>\<open>if (use_soft_start && (setpointAdjustmentType == CENTERING))\<close>\<close>
  "pid_soft_start s =
     (let pid_prop = kp s * proportional s;
          pid_derivative = kd s * derivative s
      in s\<lparr>pid_value := 0.05 * (pid_prop + pid_derivative) + 0.95 * pid_value s,
            integral := 0,
            ki := 0\<rparr>)"

definition pid_riding :: "balance \<Rightarrow> balance" where
  \<comment> \<open>the else-branch; the proportional part writes none of the statics read after it\<close>
  "pid_riding s0 =
     (let starting = pid_prop_starting s0;
          pid_prop = (if center_stiffness_delay_ms s0 \<noteq> 0 then fst starting
                      else pid_prop_riding s0);
          s = (if center_stiffness_delay_ms s0 \<noteq> 0 then snd starting else s0);
          pid_derivative = kd s0 * derivative s0;
          pid_derivative = (if \<bar>pid_derivative\<bar> > max_derivative s0
                            then max_derivative s0 * SIGN pid_derivative
                            else pid_derivative);
          new_pd_value = limit_pd s0 pid_prop pid_derivative;
          pid_integral = ki s0 * integral s0
      in s\<lparr>pid_value := 0.2 * (new_pd_value + pid_integral) + 0.8 * pid_value s0\<rparr>)"

definition pid_log :: "balance \<Rightarrow> balance" where
  \<comment> \<open>\<^verbatim>\<open>last_proportional = proportional;\<close> and \<^verbatim>\<open>// For logging only:\<close>\<close>
  "pid_log s =
     s\<lparr>last_proportional := proportional s,
       balance_integral := integral s,
       balance_ki := ki s,
       balance_setpoint := setpoint s,
       balance_atr := torquetilt_target s,
       balance_carve := turntilt_target s\<rparr>"

definition pid_output :: "balance \<Rightarrow> balance" where
  "pid_output s =
     pid_log (if use_soft_start s \<and> setpointAdjustmentType s = CENTERING
              then pid_soft_start s else pid_riding s)"

subsection \<open>balance_thread: output to the motor\<close>

text \<open>
  The fragment \<^verbatim>\<open>// Output to motor\<close> of the running branch: the requested
  current is compared with the motor limits \<open>mc_current_max\<close> and \<open>mc_current_min\<close>;
  beyond a limit it is set 3 A inside that limit and the buzzer is switched on.
\<close>

definition output_to_motor :: "balance \<Rightarrow> balance" where
  "output_to_motor s =
     (if pid_value s > mc_current_max s then
        s\<lparr>pid_value := mc_current_max s - 3,
          current_limiting := True,
          effects := effects s @ [Beep_on True]\<rparr>
      else if pid_value s < mc_current_min s then
        s\<lparr>pid_value := mc_current_min s + 3,
          current_limiting := True,
          effects := effects s @ [Beep_on True]\<rparr>
      else if current_limiting s then
        s\<lparr>current_limiting := False,
          effects := effects s @ [Beep_off False]\<rparr>
      else s)"

subsection \<open>balance_thread: the start click and the running branch\<close>

definition set_current :: "balance \<Rightarrow> real \<Rightarrow> balance" where
  "set_current s current =
     s\<lparr>effects := effects s @ [Timeout_reset, Set_current_off_delay (motor_timeout s), Set_current current]\<rparr>"

definition start_click :: "balance \<Rightarrow> balance" where
  "start_click s0 =
     (if start_counter_clicks s0 \<noteq> 0 then
        (let s = s0\<lparr>start_counter_clicks := start_counter_clicks s0 - 1\<rparr> in
         if start_counter_clicks s = 0 \<or> start_counter_clicks s = 2
         then set_current s (pid_value s - real (click_current s))
         else set_current s (pid_value s + real (click_current s)))
      else set_current s0 (pid_value s0))"

text \<open>
  The case of the four running states in the \<open>switch\<close> of the loop, without the light
  control, which is compiled only for boards with \<open>HW_HAS_LIGHT\<close>: the log value and
  the two resets at its head, \<^verbatim>\<open>// Check for faults\<close> with its \<open>break\<close>,
  \<^verbatim>\<open>// Calculate setpoint and interpolation\<close>, the three adjustments of the setpoint
  in the tiltback modes, and the PID with the output. The result is \<open>None\<close> when the
  cutback detector computed its quotient with a zero divisor.
\<close>

definition running_log :: "balance \<Rightarrow> balance" where
  "running_log s =
     s\<lparr>log_balance_state :=
         int (BalanceState_val (state s))
           + int (SetpointAdjustmentType_val (setpointAdjustmentType s)) * 16
           + (if cutback s then 128 else 0),
       inactivity_timer := - 1,
       lock_state := - 1\<rparr>"

definition running_setpoint :: "(32 word \<Rightarrow> nat) \<Rightarrow> readings \<Rightarrow> balance \<Rightarrow> balance" where
  "running_setpoint ST2MS r s =
     (let s = calculate_setpoint_interpolated (calculate_setpoint_target ST2MS r s)
      in s\<lparr>setpoint := setpoint_target_interpolated s\<rparr>)"

definition running_adjust :: "balance \<Rightarrow> balance option" where
  "running_adjust s =
     (if SetpointAdjustmentType_val (setpointAdjustmentType s)
           \<ge> SetpointAdjustmentType_val TILTBACK_NONE
      then apply_turntilt (apply_torquetilt (apply_noseangling s))
      else Some s)"

definition running_pid :: "balance \<Rightarrow> balance" where
  "running_pid s = start_click (output_to_motor (pid_output (pid_gains (pid_maths s))))"

definition running :: "(32 word \<Rightarrow> nat) \<Rightarrow> readings \<Rightarrow> balance \<Rightarrow> balance option" where
  "running ST2MS r s =
     (let faults = check_faults ST2MS False (running_log s)
      in if fst faults then Some (snd faults)
         else map_option running_pid (running_adjust (running_setpoint ST2MS r (snd faults))))"

text \<open>One iteration of the loop that begins in one of the running states.\<close>

definition running_iteration :: "(32 word \<Rightarrow> nat) \<Rightarrow> readings \<Rightarrow> balance \<Rightarrow> balance option" where
  "running_iteration ST2MS r s = running ST2MS r (read_iteration r s)"

subsection \<open>Zero-initialised statics\<close>

text \<open>
  C initialises statics to zero: every number 0, every flag false, every enumeration its
  enumerator 0, the 40 entries of \<open>accelhist\<close> 0. The concrete states of the examples
  below are updates of this one.
\<close>

definition conf_zero :: balance_config where
  "conf_zero = \<lparr>conf_kp = 0,
     conf_ki = 0,
     conf_kd = 0,
     conf_hertz = 0,
     conf_fault_pitch = 0,
     conf_fault_roll = 0,
     conf_fault_duty = 0,
     conf_fault_adc1 = 0,
     conf_fault_adc2 = 0,
     conf_fault_delay_pitch = 0,
     conf_fault_delay_roll = 0,
     conf_fault_delay_duty = 0,
     conf_fault_delay_switch_half = 0,
     conf_fault_delay_switch_full = 0,
     conf_fault_adc_half_erpm = 0,
     conf_tiltback_duty_angle = 0,
     conf_tiltback_duty_speed = 0,
     conf_tiltback_duty = 0,
     conf_tiltback_hv_angle = 0,
     conf_tiltback_hv_speed = 0,
     conf_tiltback_hv = 0,
     conf_tiltback_lv_angle = 0,
     conf_tiltback_lv_speed = 0,
     conf_tiltback_lv = 0,
     conf_tiltback_return_speed = 0,
     conf_tiltback_constant = 0,
     conf_tiltback_constant_erpm = 0,
     conf_tiltback_variable = 0,
     conf_tiltback_variable_max = 0,
     conf_noseangling_speed = 0,
     conf_startup_pitch_tolerance = 0,
     conf_startup_roll_tolerance = 0,
     conf_startup_speed = 0,
     conf_yaw_kd = 0,
     conf_booster_current = 0,
     conf_torquetilt_start_current = 0,
     conf_torquetilt_angle_limit = 0,
     conf_torquetilt_on_speed = 0,
     conf_torquetilt_off_speed = 0,
     conf_torquetilt_strength = 0,
     conf_turntilt_strength = 0,
     conf_turntilt_angle_limit = 0,
     conf_turntilt_start_angle = 0,
     conf_turntilt_start_erpm = 0,
     conf_turntilt_speed = 0,
     conf_turntilt_erpm_boost = 0,
     conf_turntilt_erpm_boost_end = 0,
     conf_brake_current = 0,
     conf_roll_steer_kp = 0,
     conf_roll_steer_erpm_kp = 0,
     conf_yaw_current_clamp = 0,
     conf_yaw_ki = 0,
     conf_booster_angle = 0,
     conf_booster_ramp = 0,
     conf_kd_pt1_lowpass_frequency = 0,
     conf_kd_pt1_highpass_frequency = 0,
     conf_kd_biquad_lowpass = 0,
     conf_kd_biquad_highpass = 0,
     conf_torquetilt_filter = 0\<rparr>"

definition statics_zero :: balance where
  "statics_zero = \<lparr>balance_conf = conf_zero,
     startup_step_size = 0,
     tiltback_duty_step_size = 0,
     tiltback_hv_step_size = 0,
     tiltback_lv_step_size = 0,
     tiltback_return_step_size = 0,
     torquetilt_on_step_size = 0,
     torquetilt_off_step_size = 0,
     turntilt_step_size = 0,
     noseangling_step_size = 0,
     tiltback_variable = 0,
     tiltback_variable_max_erpm = 0,
     tt_pid_intensity = 0,
     tt_strength_uphill = 0,
     integral_tt_impact_uphill = 0,
     integral_tt_impact_downhill = 0,
     allow_high_speed_full_switch_faults = False,
     mc_current_max = 0,
     mc_current_min = 0,
     mc_max_temp_fet = 0,
     reverse_stop_step_size = 0,
     reverse_tolerance = 0,
     use_reverse_stop = False,
     use_soft_start = False,
     center_jerk_duration_ms = 0,
     center_jerk_strength = 0,
     start_counter_clicks_max = 0,
     click_current = 0,
     erpm_sign = 0,
     tuntilt_boost_per_erpm = 0,
     yaw_aggregate_target = 0,
     cutback_enable = False,
     cutback_minspeed = 0,
     roll_aggregate_threshold = 0,
     center_boost_angle = 0,
     center_boost_kp_adder = 0,
     max_brake_amps = 0,
     max_derivative = 0,
     accel_boost_threshold = 0,
     accel_boost_threshold2 = 0,
     accel_boost_intensity = 0,
     kp_acc = 0,
     ki_acc = 0,
     kd_acc = 0,
     d_pt1_lowpass_k = 0,
     motor_timeout = 0,
     ttt_brake_ratio = 0,
     current_limiting = False,
     reverse_total_erpm = 0,
     reverse_timer = 0,
     softstart_timer = 0,
     center_stiffness_delay_ms = 0,
     center_jerk_counter = 0,
     center_jerk_adder = 0,
     start_counter_clicks = 0,
     acceleration = 0,
     acceleration_raw = 0,
     last_erpm = 0,
     accel_gap = 0,
     accel_gap_aggregate = 0,
     torquetilt_target = 0,
     sss = 0,
     last_yaw_angle = 0,
     yaw_angle = 0,
     abs_yaw_change = 0,
     last_yaw_change = 0,
     yaw_change = 0,
     yaw_aggregate = 0,
     cutback = False,
     pitch_angle = 0,
     last_pitch_angle = 0,
     roll_angle = 0,
     abs_roll_angle = 0,
     roll_aggregate = 0,
     duty_cycle = 0,
     abs_duty_cycle = 0,
     erpm = 0,
     abs_erpm = 0,
     motor_current = 0,
     motor_position = 0,
     adc1 = 0,
     adc2 = 0,
     switch_state = OFF,
     state = STARTUP,
     log_balance_state = 0,
     proportional = 0,
     integral = 0,
     derivative = 0,
     last_proportional = 0,
     pid_value = 0,
     setpoint = 0,
     setpoint_target = 0,
     setpoint_target_interpolated = 0,
     noseangling_interpolated = 0,
     torquetilt_filtered_current = 0,
     torquetilt_interpolated = 0,
     torquetilt_current_biquad = \<lparr>a0 = 0, a1 = 0, a2 = 0, b1 = 0, b2 = 0, z1 = 0, z2 = 0\<rparr>,
     accel_biquad = \<lparr>a0 = 0, a1 = 0, a2 = 0, b1 = 0, b2 = 0, z1 = 0, z2 = 0\<rparr>,
     turntilt_target = 0,
     turntilt_interpolated = 0,
     setpointAdjustmentType = CENTERING,
     current_time = 0,
     last_time = 0,
     diff_time = 0,
     fault_angle_pitch_timer = 0,
     fault_angle_roll_timer = 0,
     fault_switch_timer = 0,
     fault_switch_half_timer = 0,
     fault_duty_timer = 0,
     tb_highvoltage_timer = 0,
     kp = 0,
     ki = 0,
     kd = 0,
     d_pt1_lowpass_state = 0,
     brake_timeout = 0,
     accelhist = replicate 40 0,
     accelidx = 0,
     accelavg = 0,
     inactivity_timer = 0,
     lock_state = 0,
     balance_integral = 0,
     balance_setpoint = 0,
     balance_atr = 0,
     balance_carve = 0,
     balance_ki = 0,
     effects = []\<rparr>"

section \<open>Example states\<close>

text \<open>Motor limits of 60 A and -60 A, with a request inside the limits and one beyond.\<close>

definition limit_example :: balance where
  "limit_example = statics_zero\<lparr>pid_value := 59, mc_current_max := 60, mc_current_min := - 60\<rparr>"

definition limit_example_high :: balance where
  "limit_example_high = statics_zero\<lparr>pid_value := 100, mc_current_max := 60, mc_current_min := - 60\<rparr>"

text \<open>
  An instance of \<open>ST2MS\<close> for the examples: a system tick of 10 kHz, rounded up as ChibiOS
  does.
\<close>

definition ST2MS_10kHz :: "32 word \<Rightarrow> nat" where
  "ST2MS_10kHz n = (unat n * 1000 + 9999) div 10000"

text \<open>
  A configuration with the gains of the specification's scenarios (kp 6, ki 0.005, kd 800
  at 1000 Hz), a full-switch delay that ends in 1, and the statics derived from it; the
  board has been riding forward at 5000 erpm, level, with both pads pressed, and the
  previous iteration was one millisecond (10 ticks) ago.
\<close>

definition conf_example :: balance_config where
  "conf_example = conf_zero\<lparr>
     conf_kp := 6, conf_ki := 0.005, conf_kd := 800, conf_hertz := 1000,
     conf_fault_pitch := 20, conf_fault_roll := 45, conf_fault_duty := 0.9,
     conf_fault_adc1 := 2, conf_fault_adc2 := 2,
     conf_fault_delay_pitch := 50, conf_fault_delay_roll := 50, conf_fault_delay_duty := 50,
     conf_fault_delay_switch_half := 100, conf_fault_delay_switch_full := 251,
     conf_fault_adc_half_erpm := 300,
     conf_tiltback_duty_angle := 10, conf_tiltback_duty_speed := 5, conf_tiltback_duty := 0.8,
     conf_tiltback_hv_angle := 10, conf_tiltback_hv_speed := 3, conf_tiltback_hv := 60,
     conf_tiltback_lv_angle := 10, conf_tiltback_lv_speed := 3, conf_tiltback_lv := 40,
     conf_tiltback_return_speed := 1,
     conf_startup_pitch_tolerance := 20, conf_startup_roll_tolerance := 8, conf_startup_speed := 30\<rparr>"

definition riding_example :: balance where
  "riding_example = statics_zero\<lparr>
     balance_conf := conf_example,
     startup_step_size := 0.03, tiltback_duty_step_size := 0.005, tiltback_hv_step_size := 0.003,
     tiltback_lv_step_size := 0.003, tiltback_return_step_size := 0.001,
     allow_high_speed_full_switch_faults := False,
     mc_current_max := 60, mc_current_min := - 60, mc_max_temp_fet := 83,
     reverse_stop_step_size := 0.1, reverse_tolerance := 50000, use_reverse_stop := True,
     roll_aggregate_threshold := 5000,
     kp_acc := 6, ki_acc := 0.005, kd_acc := 800,
     switch_state := ON, state := RUNNING, setpointAdjustmentType := TILTBACK_NONE,
     erpm := 5000, abs_erpm := 5000,
     current_time := 100000, last_time := 100000,
     fault_angle_pitch_timer := 99990, fault_angle_roll_timer := 99990, fault_switch_timer := 99990,
     fault_switch_half_timer := 99990, fault_duty_timer := 99990, tb_highvoltage_timer := 99990,
     kp := 6, ki := 0.005, kd := 800\<rparr>"

subsection \<open>Vocabulary of the properties of check_faults\<close>

text \<open>
  \<open>frame\<close> forgets what \<open>check_faults\<close> may write: the top-level state and the timers
  of the faults. Two records with the same frame agree on every other static.
\<close>

definition frame :: "balance \<Rightarrow> balance" where
  "frame s = s\<lparr>state := STARTUP, fault_switch_timer := 0, reverse_timer := 0,
     fault_switch_half_timer := 0, fault_angle_pitch_timer := 0, fault_angle_roll_timer := 0,
     fault_duty_timer := 0\<rparr>"

text \<open>The states \<open>FAULT_*\<close>: the enumerators from \<open>FAULT_ANGLE_PITCH = 6\<close> on.\<close>

definition is_fault :: "BalanceState \<Rightarrow> bool" where
  "is_fault st = (BalanceState_val st \<ge> BalanceState_val FAULT_ANGLE_PITCH)"

text \<open>
  What every check of \<open>check_faults\<close> does: it leaves the frame alone, and it either
  returns true with a fault in \<open>state\<close> or returns false with \<open>state\<close> as it was.
\<close>

definition fault_check :: "(balance \<Rightarrow> bool \<times> balance) \<Rightarrow> bool" where
  "fault_check f = (\<forall>s. frame (snd (f s)) = frame s
      \<and> (if fst (f s) then is_fault (state (snd (f s))) else state (snd (f s)) = state s))"

subsection \<open>Example states of the fault checks\<close>

text \<open>
  Reverse stop is active and the board has been riding backwards at 2000 erpm until the
  accumulated erpm is \<open>-200000\<close>, four times the tolerance; the rider stands level on
  both pads.
\<close>

definition reversing_example :: balance where
  "reversing_example = riding_example\<lparr>
     setpointAdjustmentType := REVERSESTOP, erpm := - 2000, abs_erpm := 2000,
     reverse_total_erpm := - 200000, reverse_timer := 99990\<rparr>"

text \<open>The same ride with \<open>+200000\<close> accumulated.\<close>

definition reversing_positive_example :: balance where
  "reversing_positive_example = reversing_example\<lparr>reverse_total_erpm := 200000\<rparr>"

text \<open>
  Riding backwards at 5000 erpm in reverse stop, high-speed switch faults disabled; the
  rider has just taken both feet off.
\<close>

definition reversing_off_example :: balance where
  "reversing_off_example = riding_example\<lparr>
     setpointAdjustmentType := REVERSESTOP, erpm := - 5000, abs_erpm := 5000,
     reverse_total_erpm := - 30000, reverse_timer := 99990, switch_state := OFF\<rparr>"

text \<open>
  Riding forward at 5000 erpm, both feet just taken off: with high-speed switch faults
  disabled, and with them allowed after the switch has been off for 300 ms (3000 ticks).
\<close>

definition switch_off_example :: balance where
  "switch_off_example = riding_example\<lparr>switch_state := OFF\<rparr>"

definition switch_off_allowed_example :: balance where
  "switch_off_allowed_example = riding_example\<lparr>
     switch_state := OFF, allow_high_speed_full_switch_faults := True, fault_switch_timer := 97000\<rparr>"

definition switch_off_allowed_early_example :: balance where
  "switch_off_allowed_early_example = riding_example\<lparr>
     switch_state := OFF, allow_high_speed_full_switch_faults := True, fault_switch_timer := 99000\<rparr>"

text \<open>
  The input voltage has been at 60.5 V, above \<open>tiltback_hv = 60\<close> and not above 61 V,
  for one second (10000 ticks); the rider stands on both pads.
\<close>

definition overvoltage_example :: balance where
  "overvoltage_example = riding_example\<lparr>tb_highvoltage_timer := 90000\<rparr>"

definition overvoltage_readings :: readings where
  "overvoltage_readings = \<lparr>
     chVTGetSystemTimeX = 100000,
     mc_interface_get_tot_current_directional_filtered = 0,
     mc_interface_get_pid_pos_now = 0,
     imu_get_pitch = 0, imu_get_roll = 0, imu_get_yaw = 0,
     mc_interface_get_duty_cycle_now = 0,
     mc_interface_get_rpm = 5000,
     mcpwm_foc_get_smooth_erpm = 5000,
     ADC_Value_EXT = 4095, ADC_Value_EXT2 = 4095, V_REG = 3.3,
     GET_INPUT_VOLTAGE = 60.5,
     mc_interface_temp_fet_filtered = 30\<rparr>"

subsection \<open>Example states of the setpoint, the gains and the acceleration\<close>

text \<open>The duty cycle has just risen to 0.9, above \<open>tiltback_duty = 0.8\<close>.\<close>

definition duty_example :: balance where
  "duty_example = riding_example\<lparr>abs_duty_cycle := 0.9, duty_cycle := 0.9\<rparr>"

text \<open>
  A configuration with torque tilt at strength 0.1 and a stiffening intensity
  (\<open>booster_current\<close>) of 1, with the statics derived from it. Torque tilt has just
  passed 2 degrees (2.004) on the way to its target. The applied gains are at the capped
  gains 6, 0.005 and 800, which is where the gain scheduling holds them while the torque
  tilt is within 2 degrees.
\<close>

definition conf_stiffening :: balance_config where
  "conf_stiffening = conf_example\<lparr>conf_booster_current := 1, conf_torquetilt_strength := 0.1,
     conf_torquetilt_angle_limit := 8\<rparr>"

definition stiffening_example :: balance where
  "stiffening_example =
     riding_example\<lparr>balance_conf := conf_stiffening, tt_pid_intensity := 1, tt_strength_uphill := 1,
       torquetilt_target := 2.5, torquetilt_interpolated := 2.004\<rparr>"

text \<open>
  A configuration with low gains (kp 0.5, kd 300) and reverse stop (a startup speed that
  ends in .1), with the statics derived from it. The board rolls backwards at 500 erpm in
  \<open>REVERSESTOP\<close>; the applied gains are at the capped gains 0.5, 0.005 and 300.
\<close>

definition conf_low_gains :: balance_config where
  "conf_low_gains = conf_example\<lparr>conf_kp := 0.5, conf_kd := 300, conf_startup_speed := 30.1\<rparr>"

definition reverse_stop_gains_example :: balance where
  "reverse_stop_gains_example =
     riding_example\<lparr>balance_conf := conf_low_gains, startup_step_size := 0.0301,
       kp_acc := 0.5, kd_acc := 300, kp := 0.5, kd := 300,
       setpointAdjustmentType := REVERSESTOP, erpm := - 500, abs_erpm := 500,
       reverse_total_erpm := - 1000\<rparr>"

text \<open>A hard deceleration: the averaged acceleration is \<open>-10\<close>.\<close>

definition decelerating_example :: balance where
  "decelerating_example = riding_example\<lparr>acceleration := - 10\<rparr>"

subsection \<open>Vocabulary of the properties of the loop\<close>

text \<open>
  What the rate limiter of the setpoint writes and what decides its step: the
  interpolated setpoint, the mode and the six configured steps.
\<close>

definition setpoint_view ::
  "balance \<Rightarrow> real \<times> SetpointAdjustmentType \<times> real \<times> real \<times> real \<times> real \<times> real \<times> real" where
  "setpoint_view s =
     (setpoint_target_interpolated s, setpointAdjustmentType s,
      startup_step_size s, tiltback_duty_step_size s, tiltback_hv_step_size s,
      tiltback_lv_step_size s, tiltback_return_step_size s, reverse_stop_step_size s)"

text \<open>What the cutback detector reads of the roll.\<close>

definition roll_view :: "balance \<Rightarrow> real \<times> real \<times> real" where
  "roll_view s = (roll_angle s, roll_aggregate s, roll_aggregate_threshold s)"

text \<open>
  The relation between the roll angle and its aggregate that the fragment
  \<^verbatim>\<open>// Cutbacks:\<close> establishes: the aggregate is zero unless the angle is beyond 8 degrees.
\<close>

definition roll_aggregated :: "real \<times> real \<times> real \<Rightarrow> bool" where
  "roll_aggregated v = (case v of (angle, aggregate, threshold) \<Rightarrow>
     0 \<le> threshold \<and> (aggregate = 0 \<or> 8 < \<bar>angle\<bar>))"

text \<open>The applied gains and the capped gains of the configuration.\<close>

definition gains_view :: "balance \<Rightarrow> (real \<times> real \<times> real) \<times> (real \<times> real \<times> real)" where
  "gains_view s = ((kp s, ki s, kd s), (kp_acc s, ki_acc s, kd_acc s))"

text \<open>
  The bound that the applied gains do keep: twice the capped \<open>kp\<close> (the torque-tilt
  multiplier is at most 2) or the 2 of reverse stop, 1.7 times the capped \<open>ki\<close>, and the
  capped \<open>kd\<close> or the 400 of reverse stop.
\<close>

definition gains_bounded :: "(real \<times> real \<times> real) \<times> (real \<times> real \<times> real) \<Rightarrow> bool" where
  "gains_bounded v = (case v of ((p, i, d), (p_acc, i_acc, d_acc)) \<Rightarrow>
     0 \<le> p_acc \<and> 0 \<le> i_acc \<and> 0 \<le> d_acc
     \<and> p \<le> max 2 (2 * p_acc) \<and> i \<le> 1.7 * i_acc \<and> d \<le> max 400 d_acc)"




text \<open>The last 40 entries of a history that 40 zeros precede.\<close>

definition last_40 :: "real list \<Rightarrow> real list" where
  "last_40 xs = drop (length xs) (replicate 40 0 @ xs)"

text \<open>Readings of an iteration in which the duty cycle is 0.9 at 50 V.\<close>

definition duty_readings :: readings where
  "duty_readings = overvoltage_readings\<lparr>mc_interface_get_duty_cycle_now := 0.9, GET_INPUT_VOLTAGE := 50\<rparr>"

text \<open>
  \<open>check_faults\<close> raises a switch fault: it returns true with \<open>FAULT_SWITCH_FULL\<close> or
  \<open>FAULT_SWITCH_HALF\<close> in \<open>state\<close>.
\<close>

definition raises_switch_fault :: "bool \<times> balance \<Rightarrow> bool" where
  "raises_switch_fault r =
     (fst r \<and> (state (snd r) = FAULT_SWITCH_FULL \<or> state (snd r) = FAULT_SWITCH_HALF))"

text \<open>
  The ring holds the history \<open>xs\<close> of raw accelerations: read from \<open>accelidx\<close> on
  and around, its 40 entries are the last 40 of the history, and \<open>accelavg\<close> is their
  mean.
\<close>

definition ring_holds :: "balance \<Rightarrow> real list \<Rightarrow> bool" where
  "ring_holds s xs =
     (length (accelhist s) = 40 \<and> accelidx s < 40
      \<and> rotate (accelidx s) (accelhist s) = last_40 xs
      \<and> accelavg s = sum_list (last_40 xs) / 40)"

text \<open>
  What the fragment of the acceleration reads and writes: the ring, its index, the
  average, the raw acceleration, the previous smoothed erpm and the sign of the erpm.
\<close>

definition ring_view :: "balance \<Rightarrow> real list \<times> nat \<times> real \<times> real \<times> real \<times> int" where
  "ring_view s = (accelhist s, accelidx s, accelavg s, acceleration_raw s, last_erpm s, erpm_sign s)"

section \<open>Properties\<close>

subsection \<open>Output saturation\<close>

text \<open>
  Claim C1, as stated: after the saturation step \<open>pid_value\<close> lies in
  \<open>[mc_current_min + 3, mc_current_max - 3]\<close> for every value before it. The source
  rewrites the value only when it is beyond a limit; a request of 59 A under a limit of
  60 A passes unchanged and is above 57 A.
\<close>

theorem output_to_motor_margin_counterexample:
  "\<not> (pid_value (output_to_motor limit_example)
        \<le> mc_current_max (output_to_motor limit_example) - 3)"
  by (simp add: output_to_motor_def limit_example_def)

text \<open>
  Claim C1, amended: when the limits leave room for the 3 A margin
  (\<open>mc_current_min + 3 \<le> mc_current_max\<close>), the value after the saturation step lies in
  \<open>[mc_current_min, mc_current_max]\<close>; it is the value before the step when that was
  within the limits, \<open>mc_current_max - 3\<close> when it was above and \<open>mc_current_min + 3\<close>
  when it was below.
\<close>

theorem output_to_motor_within_limits:
  assumes "mc_current_min s + 3 \<le> mc_current_max s"
  shows "mc_current_min s \<le> pid_value (output_to_motor s)
       \<and> pid_value (output_to_motor s) \<le> mc_current_max s
       \<and> pid_value (output_to_motor s) =
           (if pid_value s > mc_current_max s then mc_current_max s - 3
            else if pid_value s < mc_current_min s then mc_current_min s + 3
            else pid_value s)
       \<and> mc_current_max (output_to_motor s) = mc_current_max s
       \<and> mc_current_min (output_to_motor s) = mc_current_min s"
  using assms by (simp add: output_to_motor_def)

theorem output_to_motor_within_limits_witness:
  "mc_current_min limit_example_high + 3 \<le> mc_current_max limit_example_high
   \<and> pid_value (output_to_motor limit_example_high) = 57
   \<and> mc_current_min limit_example_high \<le> pid_value (output_to_motor limit_example_high)
   \<and> pid_value (output_to_motor limit_example_high) \<le> mc_current_max limit_example_high"
  using output_to_motor_within_limits [of limit_example_high]
  by (simp add: limit_example_high_def)

subsection \<open>check_faults: the return value and the state\<close>

lemma fault_check_or_else:
  assumes f: "fault_check f" and g: "fault_check g"
  shows "fault_check (\<lambda>s. or_else (f s) g)"
  unfolding fault_check_def
proof (intro allI)
  fix s
  show "frame (snd (or_else (f s) g)) = frame s \<and>
        (if fst (or_else (f s) g) then is_fault (state (snd (or_else (f s) g)))
         else state (snd (or_else (f s) g)) = state s)"
  proof (cases "fst (f s)")
    case True
    with f show ?thesis by (simp add: fault_check_def or_else_def)
  next
    case False
    from f False have 1: "frame (snd (f s)) = frame s" "state (snd (f s)) = state s"
      by (simp_all add: fault_check_def)
    from g have 2: "frame (snd (g (snd (f s)))) = frame (snd (f s))"
      "if fst (g (snd (f s))) then is_fault (state (snd (g (snd (f s)))))
       else state (snd (g (snd (f s)))) = state (snd (f s))"
      by (simp_all add: fault_check_def)
    from False 1 2 show ?thesis by (simp add: or_else_def)
  qed
qed

lemma fault_check_switch_full: "fault_check (check_faults_switch_full ST2MS ig)"
  by (simp add: fault_check_def check_faults_switch_full_def frame_def is_fault_def)

lemma fault_check_reverse_stop: "fault_check (check_faults_reverse_stop ST2MS)"
  by (simp add: fault_check_def check_faults_reverse_stop_def frame_def is_fault_def)

lemma fault_check_switch_half: "fault_check (check_faults_switch_half ST2MS ig)"
  by (simp add: fault_check_def check_faults_switch_half_def frame_def is_fault_def)

lemma fault_check_pitch: "fault_check (check_faults_pitch ST2MS ig)"
  by (simp add: fault_check_def check_faults_pitch_def frame_def is_fault_def)

lemma fault_check_roll: "fault_check (check_faults_roll ST2MS ig)"
  by (simp add: fault_check_def check_faults_roll_def frame_def is_fault_def)

lemma fault_check_duty: "fault_check (check_faults_duty ST2MS ig)"
  by (simp add: fault_check_def check_faults_duty_def frame_def is_fault_def)

lemma fault_check_check_faults: "fault_check (check_faults ST2MS ig)"
proof -
  have "check_faults ST2MS ig = (\<lambda>s. or_else (or_else (or_else (or_else (or_else
       (check_faults_switch_full ST2MS ig s)
       (check_faults_reverse_stop ST2MS))
       (check_faults_switch_half ST2MS ig))
       (check_faults_pitch ST2MS ig))
       (check_faults_roll ST2MS ig))
       (check_faults_duty ST2MS ig))"
    by (rule ext) (simp add: check_faults_def)
  then show ?thesis
    by (simp add: fault_check_or_else fault_check_switch_full fault_check_reverse_stop
        fault_check_switch_half fault_check_pitch fault_check_roll fault_check_duty)
qed

lemma check_faults_frame: "frame (snd (check_faults ST2MS ig s)) = frame s"
  using fault_check_check_faults [of ST2MS ig] by (simp add: fault_check_def)

lemma check_faults_state:
  "if fst (check_faults ST2MS ig s) then is_fault (state (snd (check_faults ST2MS ig s)))
   else state (snd (check_faults ST2MS ig s)) = state s"
  using fault_check_check_faults [of ST2MS ig] by (simp add: fault_check_def)

text \<open>
  Claim C10: \<open>check_faults\<close> returns true if and only if it assigns a \<open>FAULT_*\<close> value
  to \<open>state\<close>; when it returns false, \<open>state\<close> is as it was, and in both cases the
  call changes nothing but \<open>state\<close> and the timers of the faults (the frames before
  and after are equal). Called in a state that is not itself a fault, the return value
  is exactly "the state is now a fault".
\<close>

theorem check_faults_true_iff_fault:
  "(fst (check_faults ST2MS ignoreTimers s) \<longrightarrow> is_fault (state (snd (check_faults ST2MS ignoreTimers s))))
   \<and> (\<not> fst (check_faults ST2MS ignoreTimers s) \<longrightarrow> state (snd (check_faults ST2MS ignoreTimers s)) = state s)
   \<and> (\<not> is_fault (state s) \<longrightarrow>
        fst (check_faults ST2MS ignoreTimers s) = is_fault (state (snd (check_faults ST2MS ignoreTimers s))))
   \<and> frame (snd (check_faults ST2MS ignoreTimers s)) = frame s"
  using check_faults_state [of ST2MS ignoreTimers s] check_faults_frame [of ST2MS ignoreTimers s]
  by (cases "fst (check_faults ST2MS ignoreTimers s)") simp_all

subsection \<open>Fields of the example states\<close>

lemma conf_example_fields:
  "conf_fault_pitch conf_example = 20"
  "conf_fault_roll conf_example = 45"
  "conf_fault_duty conf_example = 0.9"
  "conf_fault_adc_half_erpm conf_example = 300"
  "conf_fault_delay_switch_full conf_example = 251"
  "conf_fault_delay_switch_half conf_example = 100"
  "conf_fault_delay_pitch conf_example = 50"
  "conf_fault_delay_roll conf_example = 50"
  "conf_fault_delay_duty conf_example = 50"
  "conf_tiltback_duty conf_example = 0.8"
  "conf_tiltback_duty_angle conf_example = 10"
  "conf_tiltback_hv conf_example = 60"
  "conf_tiltback_hv_angle conf_example = 10"
  "conf_tiltback_lv conf_example = 40"
  "conf_tiltback_lv_angle conf_example = 10"
  by (simp_all add: conf_example_def conf_zero_def)

lemma riding_example_fields:
  "balance_conf riding_example = conf_example"
  "switch_state riding_example = ON"
  "state riding_example = RUNNING"
  "setpointAdjustmentType riding_example = TILTBACK_NONE"
  "allow_high_speed_full_switch_faults riding_example = False"
  "current_time riding_example = 100000"
  "fault_switch_timer riding_example = 99990"
  "fault_switch_half_timer riding_example = 99990"
  "fault_angle_pitch_timer riding_example = 99990"
  "fault_angle_roll_timer riding_example = 99990"
  "fault_duty_timer riding_example = 99990"
  "tb_highvoltage_timer riding_example = 99990"
  "reverse_timer riding_example = 0"
  "softstart_timer riding_example = 0"
  "pitch_angle riding_example = 0"
  "roll_angle riding_example = 0"
  "erpm riding_example = 5000"
  "abs_erpm riding_example = 5000"
  "abs_duty_cycle riding_example = 0"
  "reverse_total_erpm riding_example = 0"
  "reverse_tolerance riding_example = 50000"
  "use_reverse_stop riding_example = True"
  "use_soft_start riding_example = False"
  "mc_max_temp_fet riding_example = 83"
  "setpoint_target riding_example = 0"
  "setpoint_target_interpolated riding_example = 0"
  "tiltback_return_step_size riding_example = 0.001"
  "tiltback_duty_step_size riding_example = 0.005"
  "tiltback_hv_step_size riding_example = 0.003"
  "tiltback_lv_step_size riding_example = 0.003"
  "startup_step_size riding_example = 0.03"
  "reverse_stop_step_size riding_example = 0.1"
  "effects riding_example = []"
  by (simp_all add: riding_example_def statics_zero_def)

lemma riding_example_gains:
  "kp riding_example = 6" "ki riding_example = 0.005" "kd riding_example = 800"
  "kp_acc riding_example = 6" "ki_acc riding_example = 0.005" "kd_acc riding_example = 800"
  "roll_aggregate_threshold riding_example = 5000"
  "conf_ki conf_example = 0.005" "conf_kp conf_example = 6" "conf_kd conf_example = 800"
  by (simp_all add: riding_example_def conf_example_def statics_zero_def)

lemmas check_faults_defs =
  check_faults_def or_else_def check_faults_switch_full_def check_faults_reverse_stop_def
  check_faults_switch_half_def check_faults_pitch_def check_faults_roll_def check_faults_duty_def

lemma ST2MS_10kHz_values:
  "ST2MS_10kHz 0 = 0" "ST2MS_10kHz 10 = 1" "ST2MS_10kHz 3000 = 300" "ST2MS_10kHz 1000 = 100"
  "ST2MS_10kHz 10000 = 1000"
  by (simp_all add: ST2MS_10kHz_def)

subsection \<open>check_faults: the reverse-stop check\<close>

text \<open>
  Claim C2 says that in the mode \<open>REVERSESTOP\<close> the fault \<open>FAULT_REVERSE\<close> is raised
  as soon as the absolute value of \<open>reverse_total_erpm\<close> exceeds three times
  \<open>reverse_tolerance\<close>, for either sign. The source compares the signed value:
  \<^verbatim>\<open>if (reverse_total_erpm > reverse_tolerance * 3)\<close>. After riding backwards to an
  accumulated \<open>-200000\<close> erpm against a tolerance of 50000, \<open>check_faults\<close> returns
  false and the state stays \<open>RUNNING\<close>.
\<close>

theorem check_faults_reverse_negative:
  "3 * reverse_tolerance reversing_example < \<bar>reverse_total_erpm reversing_example\<bar>
   \<and> setpointAdjustmentType reversing_example = REVERSESTOP
   \<and> \<not> fst (check_faults ST2MS_10kHz False reversing_example)
   \<and> state (snd (check_faults ST2MS_10kHz False reversing_example)) = RUNNING"
  by (simp add: check_faults_defs reversing_example_def riding_example_fields conf_example_fields
      ST2MS_10kHz_values)

text \<open>With the same magnitude and a positive sign the check fires.\<close>

lemma check_faults_reverse_positive:
  "fst (check_faults ST2MS_10kHz False reversing_positive_example)
   \<and> state (snd (check_faults ST2MS_10kHz False reversing_positive_example)) = FAULT_REVERSE"
  by (simp add: check_faults_defs reversing_positive_example_def reversing_example_def
      riding_example_fields conf_example_fields ST2MS_10kHz_values)

text \<open>Both outcomes of claim C10, at the two rides above.\<close>

theorem check_faults_true_iff_fault_witness:
  "(\<not> is_fault (state riding_example)
      \<and> \<not> fst (check_faults ST2MS_10kHz False riding_example)
      \<and> \<not> is_fault (state (snd (check_faults ST2MS_10kHz False riding_example)))
      \<and> state (snd (check_faults ST2MS_10kHz False riding_example)) = state riding_example)
   \<and> (fst (check_faults ST2MS_10kHz False reversing_positive_example)
      \<and> is_fault (state (snd (check_faults ST2MS_10kHz False reversing_positive_example))))"
proof -
  have no: "\<not> fst (check_faults ST2MS_10kHz False riding_example)"
    by (simp add: check_faults_defs riding_example_fields conf_example_fields ST2MS_10kHz_values)
  have running: "\<not> is_fault (state riding_example)"
    by (simp add: riding_example_fields is_fault_def)
  show ?thesis
    using check_faults_true_iff_fault [of ST2MS_10kHz False riding_example]
      check_faults_true_iff_fault [of ST2MS_10kHz False reversing_positive_example]
      check_faults_reverse_positive no running
    by simp
qed


text \<open>
  The mode is entered with \<open>erpm < 0\<close> and \<open>reverse_total_erpm = 0\<close>, so the sum is
  negative while the board rides backwards: the comparison cannot fire there.
\<close>

lemma check_faults_reverse_stop_negative:
  assumes "reverse_total_erpm s \<le> 0" "0 \<le> reverse_tolerance s" "switch_state s \<noteq> OFF"
    and "\<bar>pitch_angle s\<bar> \<le> 5"
  shows "\<not> fst (check_faults_reverse_stop ST2MS s)"
  using assms by (simp add: check_faults_reverse_stop_def)

subsection \<open>check_faults: the switch at speed\<close>

lemma or_else_proj:
  assumes "p (snd r) = v" and "\<And>s. p (snd (f s)) = p s"
  shows "p (snd (or_else r f)) = v"
  using assms by (simp add: or_else_def)

lemma check_faults_switch_timer:
  "fault_switch_timer (snd (check_faults ST2MS ig s))
     = fault_switch_timer (snd (check_faults_switch_full ST2MS ig s))"
  unfolding check_faults_def
  by (intro or_else_proj [where p = fault_switch_timer] refl)
     (simp_all add: check_faults_reverse_stop_def check_faults_switch_half_def
        check_faults_pitch_def check_faults_roll_def check_faults_duty_def)

lemma angle_checks_raised:
  "fst (or_else (or_else (check_faults_pitch ST2MS ig s) (check_faults_roll ST2MS ig))
      (check_faults_duty ST2MS ig))
   \<Longrightarrow> state (snd (or_else (or_else (check_faults_pitch ST2MS ig s) (check_faults_roll ST2MS ig))
      (check_faults_duty ST2MS ig)))
   \<in> {FAULT_ANGLE_PITCH, FAULT_ANGLE_ROLL, FAULT_DUTY}"
  by (auto simp add: or_else_def check_faults_pitch_def check_faults_roll_def check_faults_duty_def
      split: if_splits)

lemma check_faults_sequence:
  "check_faults ST2MS ig s =
     (if fst (check_faults_switch_full ST2MS ig s) then check_faults_switch_full ST2MS ig s
      else if fst (check_faults_reverse_stop ST2MS (snd (check_faults_switch_full ST2MS ig s)))
        then check_faults_reverse_stop ST2MS (snd (check_faults_switch_full ST2MS ig s))
      else if fst (check_faults_switch_half ST2MS ig
                (snd (check_faults_reverse_stop ST2MS (snd (check_faults_switch_full ST2MS ig s)))))
        then check_faults_switch_half ST2MS ig
                (snd (check_faults_reverse_stop ST2MS (snd (check_faults_switch_full ST2MS ig s))))
      else or_else (or_else
             (check_faults_pitch ST2MS ig
                (snd (check_faults_switch_half ST2MS ig
                  (snd (check_faults_reverse_stop ST2MS (snd (check_faults_switch_full ST2MS ig s)))))))
             (check_faults_roll ST2MS ig)) (check_faults_duty ST2MS ig))"
  by (simp add: check_faults_def or_else_def)

text \<open>The first check with the switch off.\<close>

lemma switch_full_off:
  assumes "switch_state s = OFF"
  shows "check_faults_switch_full ST2MS ig s =
     (if ig
         \<or> conf_fault_delay_switch_full (balance_conf s) < ST2MS (current_time s - fault_switch_timer s)
         \<or> (abs_erpm s < conf_fault_adc_half_erpm (balance_conf s) * 4
             \<and> conf_fault_delay_switch_half (balance_conf s) < ST2MS (current_time s - fault_switch_timer s))
         \<or> (abs_erpm s < conf_fault_adc_half_erpm (balance_conf s) \<and> 15 < \<bar>pitch_angle s\<bar>)
      then (True, s\<lparr>state := FAULT_SWITCH_FULL\<rparr>)
      else if 3000 < abs_erpm s \<and> \<not> allow_high_speed_full_switch_faults s
      then (False, s\<lparr>fault_switch_timer := current_time s\<rparr>)
      else (False, s))"
  using assms by (simp add: check_faults_switch_full_def)

lemma reverse_stop_off:
  assumes "switch_state s = OFF"
  shows "check_faults_reverse_stop ST2MS s =
     (if setpointAdjustmentType s = REVERSESTOP then (True, s\<lparr>state := FAULT_SWITCH_FULL\<rparr>)
      else (False, s))"
  using assms by (simp add: check_faults_reverse_stop_def)

lemma switch_half_off:
  assumes "switch_state s = OFF"
  shows "check_faults_switch_half ST2MS ig s =
     (if abs_erpm s < conf_fault_adc_half_erpm (balance_conf s) then
        if conf_fault_delay_switch_half (balance_conf s) < ST2MS (current_time s - fault_switch_half_timer s)
           \<or> ig
        then (True, s\<lparr>state := FAULT_SWITCH_HALF\<rparr>) else (False, s)
      else (False, s\<lparr>fault_switch_half_timer := current_time s\<rparr>))"
  using assms by (simp add: check_faults_switch_half_def)

lemma raises_switch_fault_off:
  assumes off: "switch_state s = OFF"
  shows "raises_switch_fault (check_faults ST2MS ig s) \<longleftrightarrow>
     ig
     \<or> conf_fault_delay_switch_full (balance_conf s) < ST2MS (current_time s - fault_switch_timer s)
     \<or> (abs_erpm s < conf_fault_adc_half_erpm (balance_conf s) * 4
         \<and> conf_fault_delay_switch_half (balance_conf s) < ST2MS (current_time s - fault_switch_timer s))
     \<or> (abs_erpm s < conf_fault_adc_half_erpm (balance_conf s) \<and> 15 < \<bar>pitch_angle s\<bar>)
     \<or> setpointAdjustmentType s = REVERSESTOP
     \<or> (abs_erpm s < conf_fault_adc_half_erpm (balance_conf s)
         \<and> conf_fault_delay_switch_half (balance_conf s) < ST2MS (current_time s - fault_switch_half_timer s))"
proof -
  define first where "first \<longleftrightarrow>
     ig
     \<or> conf_fault_delay_switch_full (balance_conf s) < ST2MS (current_time s - fault_switch_timer s)
     \<or> (abs_erpm s < conf_fault_adc_half_erpm (balance_conf s) * 4
         \<and> conf_fault_delay_switch_half (balance_conf s) < ST2MS (current_time s - fault_switch_timer s))
     \<or> (abs_erpm s < conf_fault_adc_half_erpm (balance_conf s) \<and> 15 < \<bar>pitch_angle s\<bar>)"
  define half where "half \<longleftrightarrow>
     abs_erpm s < conf_fault_adc_half_erpm (balance_conf s)
     \<and> conf_fault_delay_switch_half (balance_conf s) < ST2MS (current_time s - fault_switch_half_timer s)"
  define s1 where "s1 =
     (if 3000 < abs_erpm s \<and> \<not> allow_high_speed_full_switch_faults s
      then s\<lparr>fault_switch_timer := current_time s\<rparr> else s)"
  let ?a = "check_faults_switch_full ST2MS ig s"
  let ?b = "check_faults_reverse_stop ST2MS s1"
  let ?c = "check_faults_switch_half ST2MS ig s1"
  have a: "?a = (if first then (True, s\<lparr>state := FAULT_SWITCH_FULL\<rparr>) else (False, s1))"
    unfolding first_def s1_def using switch_full_off [OF off, of ST2MS ig] by simp
  have s1: "switch_state s1 = OFF" "setpointAdjustmentType s1 = setpointAdjustmentType s"
    "abs_erpm s1 = abs_erpm s" "balance_conf s1 = balance_conf s" "current_time s1 = current_time s"
    "fault_switch_half_timer s1 = fault_switch_half_timer s"
    using off by (simp_all add: s1_def)
  have b: "?b = (if setpointAdjustmentType s = REVERSESTOP
                 then (True, s1\<lparr>state := FAULT_SWITCH_FULL\<rparr>) else (False, s1))"
    using reverse_stop_off [OF s1(1), of ST2MS] s1 by simp
  have c: "\<not> ig \<Longrightarrow> fst ?c = half" "fst ?c \<Longrightarrow> state (snd ?c) = FAULT_SWITCH_HALF"
    using switch_half_off [OF s1(1), of ST2MS ig] s1 by (auto simp add: half_def split: if_splits)
  have "raises_switch_fault (check_faults ST2MS ig s) \<longleftrightarrow>
      first \<or> setpointAdjustmentType s = REVERSESTOP \<or> half"
  proof (cases first)
    case True
    then show ?thesis
      using a by (simp add: check_faults_sequence raises_switch_fault_def)
  next
    case False
    then have ig: "\<not> ig" by (simp add: first_def)
    show ?thesis
    proof (cases "setpointAdjustmentType s = REVERSESTOP")
      case True
      then show ?thesis
        using a b False by (simp add: check_faults_sequence raises_switch_fault_def)
    next
      case mode: False
      show ?thesis
      proof (cases half)
        case True
        then show ?thesis
          using a b False mode c ig by (simp add: check_faults_sequence raises_switch_fault_def)
      next
        case nohalf: False
        let ?t = "or_else (or_else (check_faults_pitch ST2MS ig (snd ?c)) (check_faults_roll ST2MS ig))
                    (check_faults_duty ST2MS ig)"
        have "check_faults ST2MS ig s = ?t"
          using a b False mode c(1) [OF ig] nohalf by (simp add: check_faults_sequence)
        moreover have "\<not> raises_switch_fault ?t"
          using angle_checks_raised [of ST2MS ig "snd ?c"]
          by (auto simp add: raises_switch_fault_def)
        ultimately show ?thesis using False mode nohalf by simp
      qed
    qed
  qed
  then show ?thesis by (simp add: first_def half_def disj_ac)
qed

lemma switch_off_timer:
  assumes off: "switch_state s = OFF"
  shows "fault_switch_timer (snd (check_faults ST2MS ig s)) =
     (if \<not> ig
         \<and> ST2MS (current_time s - fault_switch_timer s) \<le> conf_fault_delay_switch_full (balance_conf s)
         \<and> \<not> (abs_erpm s < conf_fault_adc_half_erpm (balance_conf s) * 4
             \<and> conf_fault_delay_switch_half (balance_conf s) < ST2MS (current_time s - fault_switch_timer s))
         \<and> \<not> (abs_erpm s < conf_fault_adc_half_erpm (balance_conf s) \<and> 15 < \<bar>pitch_angle s\<bar>)
         \<and> 3000 < abs_erpm s \<and> \<not> allow_high_speed_full_switch_faults s
      then current_time s else fault_switch_timer s)"
  unfolding check_faults_switch_timer switch_full_off [OF off]
  by (auto simp add: not_less)

lemma switch_off_expired:
  assumes "switch_state s = OFF"
    and "conf_fault_delay_switch_full (balance_conf s) < ST2MS (current_time s - fault_switch_timer s)"
  shows "check_faults ST2MS ig s = (True, s\<lparr>state := FAULT_SWITCH_FULL\<rparr>)"
  using assms by (simp add: check_faults_sequence switch_full_off)

lemma switch_off_reversing:
  assumes off: "switch_state s = OFF" and "setpointAdjustmentType s = REVERSESTOP"
  shows "fst (check_faults ST2MS ig s) \<and> state (snd (check_faults ST2MS ig s)) = FAULT_SWITCH_FULL"
proof (cases "fst (check_faults_switch_full ST2MS ig s)")
  case True
  then show ?thesis
    using off by (auto simp add: check_faults_sequence switch_full_off split: if_splits)
next
  case False
  let ?s1 = "snd (check_faults_switch_full ST2MS ig s)"
  have "switch_state ?s1 = OFF" "setpointAdjustmentType ?s1 = REVERSESTOP"
    using assms by (simp_all add: switch_full_off)
  then show ?thesis
    using False by (simp add: check_faults_sequence reverse_stop_off)
qed

text \<open>
  Claim C7, as stated: with the switch off, \<open>abs_erpm\<close> above 3000 and high-speed
  switch faults disabled, \<open>check_faults\<close> never raises a switch fault. In the mode
  \<open>REVERSESTOP\<close> the reverse-stop check raises \<open>FAULT_SWITCH_FULL\<close> at once
  (\<^verbatim>\<open>// Taking your foot off entirely while reversing? Ignore delays\<close>), here at
  5000 erpm backwards.
\<close>

theorem check_faults_switch_off_reversing_counterexample:
  "switch_state reversing_off_example = OFF
   \<and> 3000 < abs_erpm reversing_off_example
   \<and> \<not> allow_high_speed_full_switch_faults reversing_off_example
   \<and> fst (check_faults ST2MS_10kHz False reversing_off_example)
   \<and> state (snd (check_faults ST2MS_10kHz False reversing_off_example)) = FAULT_SWITCH_FULL"
  by (simp add: check_faults_defs reversing_off_example_def
      riding_example_fields conf_example_fields ST2MS_10kHz_values)

text \<open>
  Claim C7, amended. With the switch off, \<open>check_faults\<close> raises a switch fault exactly
  when one of these holds: \<open>ignoreTimers\<close> is set; more than \<open>fault_delay_switch_full\<close>
  ms are on the full-switch timer; \<open>abs_erpm\<close> is below four times
  \<open>fault_adc_half_erpm\<close> and more than \<open>fault_delay_switch_half\<close> ms are on the
  full-switch timer; \<open>abs_erpm\<close> is below \<open>fault_adc_half_erpm\<close> and the pitch is beyond
  15 degrees; the mode is \<open>REVERSESTOP\<close>; \<open>abs_erpm\<close> is below \<open>fault_adc_half_erpm\<close>
  and more than \<open>fault_delay_switch_half\<close> ms are on the half-switch timer. With
  \<open>abs_erpm\<close> above 3000 and high-speed switch faults disabled, every call that raises
  no switch fault sets the full-switch timer to the current time, so that at the next
  iteration only the time of one iteration is on it, however long the switch stays
  off. With the faults allowed the call leaves the timer as it was, and whenever more
  than \<open>fault_delay_switch_full\<close> ms are on the timer \<open>check_faults\<close> returns true with
  \<open>FAULT_SWITCH_FULL\<close>. In the mode \<open>REVERSESTOP\<close> it returns true with
  \<open>FAULT_SWITCH_FULL\<close> at once, at any speed.
\<close>

theorem check_faults_switch_off:
  assumes "switch_state s = OFF"
  shows "(raises_switch_fault (check_faults ST2MS ignoreTimers s) \<longleftrightarrow>
            ignoreTimers
            \<or> conf_fault_delay_switch_full (balance_conf s) < ST2MS (current_time s - fault_switch_timer s)
            \<or> (abs_erpm s < conf_fault_adc_half_erpm (balance_conf s) * 4
                \<and> conf_fault_delay_switch_half (balance_conf s)
                      < ST2MS (current_time s - fault_switch_timer s))
            \<or> (abs_erpm s < conf_fault_adc_half_erpm (balance_conf s) \<and> 15 < \<bar>pitch_angle s\<bar>)
            \<or> setpointAdjustmentType s = REVERSESTOP
            \<or> (abs_erpm s < conf_fault_adc_half_erpm (balance_conf s)
                \<and> conf_fault_delay_switch_half (balance_conf s)
                      < ST2MS (current_time s - fault_switch_half_timer s)))
       \<and> (3000 < abs_erpm s \<and> \<not> allow_high_speed_full_switch_faults s
            \<and> \<not> raises_switch_fault (check_faults ST2MS ignoreTimers s)
          \<longrightarrow> fault_switch_timer (snd (check_faults ST2MS ignoreTimers s)) = current_time s)
       \<and> (allow_high_speed_full_switch_faults s
          \<longrightarrow> fault_switch_timer (snd (check_faults ST2MS ignoreTimers s)) = fault_switch_timer s)
       \<and> (conf_fault_delay_switch_full (balance_conf s) < ST2MS (current_time s - fault_switch_timer s)
          \<longrightarrow> fst (check_faults ST2MS ignoreTimers s)
              \<and> state (snd (check_faults ST2MS ignoreTimers s)) = FAULT_SWITCH_FULL)
       \<and> (setpointAdjustmentType s = REVERSESTOP
          \<longrightarrow> fst (check_faults ST2MS ignoreTimers s)
              \<and> state (snd (check_faults ST2MS ignoreTimers s)) = FAULT_SWITCH_FULL)"
proof -
  note iff = raises_switch_fault_off [OF assms, of ST2MS ignoreTimers]
  have rearm: "fault_switch_timer (snd (check_faults ST2MS ignoreTimers s)) = current_time s"
    if "3000 < abs_erpm s" "\<not> allow_high_speed_full_switch_faults s"
      "\<not> raises_switch_fault (check_faults ST2MS ignoreTimers s)"
    using that iff by (simp add: switch_off_timer [OF assms] not_less)
  have keep: "fault_switch_timer (snd (check_faults ST2MS ignoreTimers s)) = fault_switch_timer s"
    if "allow_high_speed_full_switch_faults s"
    using that by (simp add: switch_off_timer [OF assms])
  have expired: "fst (check_faults ST2MS ignoreTimers s)
      \<and> state (snd (check_faults ST2MS ignoreTimers s)) = FAULT_SWITCH_FULL"
    if "conf_fault_delay_switch_full (balance_conf s) < ST2MS (current_time s - fault_switch_timer s)"
    using assms that by (simp add: switch_off_expired)
  show ?thesis
    using iff rearm keep expired switch_off_reversing [OF assms, of ST2MS ignoreTimers] by blast
qed

theorem check_faults_switch_off_witness:
  "(switch_state switch_off_example = OFF \<and> 3000 < abs_erpm switch_off_example
      \<and> \<not> allow_high_speed_full_switch_faults switch_off_example
      \<and> \<not> raises_switch_fault (check_faults ST2MS_10kHz False switch_off_example)
      \<and> fault_switch_timer (snd (check_faults ST2MS_10kHz False switch_off_example))
            = current_time switch_off_example)
   \<and> (switch_state switch_off_allowed_early_example = OFF
      \<and> allow_high_speed_full_switch_faults switch_off_allowed_early_example
      \<and> \<not> raises_switch_fault (check_faults ST2MS_10kHz False switch_off_allowed_early_example)
      \<and> fault_switch_timer (snd (check_faults ST2MS_10kHz False switch_off_allowed_early_example))
            = fault_switch_timer switch_off_allowed_early_example)
   \<and> (switch_state switch_off_allowed_example = OFF
      \<and> allow_high_speed_full_switch_faults switch_off_allowed_example
      \<and> raises_switch_fault (check_faults ST2MS_10kHz False switch_off_allowed_example)
      \<and> state (snd (check_faults ST2MS_10kHz False switch_off_allowed_example)) = FAULT_SWITCH_FULL)
   \<and> (switch_state reversing_off_example = OFF
      \<and> setpointAdjustmentType reversing_off_example = REVERSESTOP
      \<and> raises_switch_fault (check_faults ST2MS_10kHz True reversing_off_example)
      \<and> state (snd (check_faults ST2MS_10kHz True reversing_off_example)) = FAULT_SWITCH_FULL)"
  using check_faults_switch_off [of switch_off_example ST2MS_10kHz False]
    check_faults_switch_off [of switch_off_allowed_early_example ST2MS_10kHz False]
    check_faults_switch_off [of switch_off_allowed_example ST2MS_10kHz False]
    check_faults_switch_off [of reversing_off_example ST2MS_10kHz True]
  by (simp add: switch_off_example_def switch_off_allowed_early_example_def
      switch_off_allowed_example_def reversing_off_example_def
      riding_example_fields conf_example_fields ST2MS_10kHz_values)

subsection \<open>calculate_setpoint_target: high-voltage tiltback\<close>

text \<open>
  Claim C3 says that with the input voltage in \<open>(tiltback_hv, tiltback_hv + 1]\<close> the mode
  becomes \<open>TILTBACK_HV\<close> once the overvoltage has lasted 500 ms. The source keeps the
  time of the last iteration without overvoltage in \<open>tb_highvoltage_timer\<close>, and then
  measures the 500 ms on another timer:
  \<^verbatim>\<open>if ((ST2MS(current_time - fault_switch_timer) > 500) || ...\<close>.
  \<open>check_faults\<close>, which runs before it in the same iteration, sets
  \<open>fault_switch_timer\<close> to the current time whenever the switch is not off. After one
  second at 60.5 V with both pads pressed the mode is still \<open>TILTBACK_NONE\<close>.
\<close>

theorem overvoltage_sustained_no_tiltback:
  "ST2MS_10kHz (current_time overvoltage_example - tb_highvoltage_timer overvoltage_example) = 1000
   \<and> conf_tiltback_hv (balance_conf overvoltage_example) < GET_INPUT_VOLTAGE overvoltage_readings
   \<and> \<not> fst (check_faults ST2MS_10kHz False overvoltage_example)
   \<and> setpointAdjustmentType (calculate_setpoint_target ST2MS_10kHz overvoltage_readings
        (snd (check_faults ST2MS_10kHz False overvoltage_example))) = TILTBACK_NONE
   \<and> state (calculate_setpoint_target ST2MS_10kHz overvoltage_readings
        (snd (check_faults ST2MS_10kHz False overvoltage_example))) = RUNNING"
  by (simp add: check_faults_defs calculate_setpoint_target_def Let_def overvoltage_example_def
      overvoltage_readings_def riding_example_fields conf_example_fields ST2MS_10kHz_values)

text \<open>
  For every state with the switch not off, the iteration leaves the mode at
  \<open>TILTBACK_NONE\<close> whatever \<open>tb_highvoltage_timer\<close> holds.
\<close>

lemma overvoltage_timer_rearmed:
  assumes "switch_state s \<noteq> OFF"
    and "ST2MS 0 = 0"
    and "setpointAdjustmentType s \<noteq> CENTERING" "setpointAdjustmentType s \<noteq> REVERSESTOP"
    and "abs_duty_cycle s \<le> conf_tiltback_duty (balance_conf s)"
    and "conf_tiltback_hv (balance_conf s) < GET_INPUT_VOLTAGE r"
    and "GET_INPUT_VOLTAGE r \<le> conf_tiltback_hv (balance_conf s) + 1"
  shows "setpointAdjustmentType (calculate_setpoint_target ST2MS r (snd (check_faults ST2MS False s)))
           = TILTBACK_NONE"
proof -
  let ?s = "snd (check_faults ST2MS False s)"
  have fr: "frame ?s = frame s" by (rule check_faults_frame)
  have same: "setpointAdjustmentType ?s = setpointAdjustmentType s"
    "abs_duty_cycle ?s = abs_duty_cycle s" "balance_conf ?s = balance_conf s"
    "current_time ?s = current_time s"
    using arg_cong [OF fr, of setpointAdjustmentType] arg_cong [OF fr, of abs_duty_cycle]
      arg_cong [OF fr, of balance_conf] arg_cong [OF fr, of current_time]
    by (simp_all add: frame_def)
  have timer: "fault_switch_timer ?s = current_time s"
    using assms(1) by (simp add: check_faults_switch_timer check_faults_switch_full_def)
  show ?thesis
    using assms same timer
    by (simp add: calculate_setpoint_target_def Let_def)
qed

subsection \<open>What the fragments of the loop leave alone\<close>

lemma step_of_view:
  "setpoint_view a = setpoint_view b \<Longrightarrow>
     get_setpoint_adjustment_step_size a = get_setpoint_adjustment_step_size b"
  by (cases "setpointAdjustmentType b")
     (simp_all add: setpoint_view_def get_setpoint_adjustment_step_size_def)

lemma setpoint_view_apply_noseangling: "setpoint_view (apply_noseangling s) = setpoint_view s"
  by (simp add: setpoint_view_def apply_noseangling_def Let_def)

lemma setpoint_view_apply_torquetilt: "setpoint_view (apply_torquetilt s) = setpoint_view s"
  by (simp add: setpoint_view_def apply_torquetilt_def)

lemma setpoint_view_turntilt_interpolate: "setpoint_view (turntilt_interpolate s) = setpoint_view s"
  by (simp add: setpoint_view_def turntilt_interpolate_def Let_def)

lemma setpoint_view_turntilt_desired: "setpoint_view (turntilt_desired s) = setpoint_view s"
  by (simp add: setpoint_view_def turntilt_desired_def Let_def)

lemma setpoint_view_apply_turntilt:
  "apply_turntilt s = Some s' \<Longrightarrow> setpoint_view s' = setpoint_view s"
  by (auto simp add: apply_turntilt_def Let_def setpoint_view_turntilt_interpolate
      setpoint_view_turntilt_desired split: if_splits option.splits)
     (simp_all add: setpoint_view_def)

lemma setpoint_view_pid_maths: "setpoint_view (pid_maths s) = setpoint_view s"
  by (simp add: setpoint_view_def pid_maths_def Let_def)

lemma setpoint_view_pid_gains: "setpoint_view (pid_gains s) = setpoint_view s"
  by (simp add: setpoint_view_def pid_gains_def Let_def)

lemma setpoint_view_pid_output: "setpoint_view (pid_output s) = setpoint_view s"
  by (simp add: setpoint_view_def pid_output_def pid_log_def pid_soft_start_def pid_riding_def
      pid_prop_starting_def Let_def)

lemma setpoint_view_output_to_motor: "setpoint_view (output_to_motor s) = setpoint_view s"
  by (simp add: setpoint_view_def output_to_motor_def)

lemma setpoint_view_start_click: "setpoint_view (start_click s) = setpoint_view s"
  by (simp add: setpoint_view_def start_click_def set_current_def Let_def)

subsection \<open>The rate limiter of the setpoint\<close>

lemma setpoint_view_frame: "setpoint_view (frame s) = setpoint_view s"
  by (simp add: setpoint_view_def frame_def)

lemma check_faults_keeps:
  assumes "\<And>x. p (frame x) = p x"
  shows "p (snd (check_faults ST2MS ig s)) = p s"
proof -
  have "p (snd (check_faults ST2MS ig s)) = p (frame (snd (check_faults ST2MS ig s)))"
    by (simp add: assms)
  also have "\<dots> = p (frame s)" by (simp add: check_faults_frame)
  also have "\<dots> = p s" by (simp add: assms)
  finally show ?thesis .
qed

lemma setpoint_view_running_log: "setpoint_view (running_log s) = setpoint_view s"
  by (simp add: setpoint_view_def running_log_def)

lemma setpoint_view_running_pid: "setpoint_view (running_pid s) = setpoint_view s"
  by (simp add: running_pid_def setpoint_view_start_click setpoint_view_output_to_motor
      setpoint_view_pid_output setpoint_view_pid_gains setpoint_view_pid_maths)

lemma setpoint_view_running_adjust:
  "running_adjust s = Some s' \<Longrightarrow> setpoint_view s' = setpoint_view s"
  by (auto simp add: running_adjust_def setpoint_view_apply_noseangling
      setpoint_view_apply_torquetilt dest!: setpoint_view_apply_turntilt split: if_splits)

lemma interpolated_calculate_setpoint_target:
  "setpoint_target_interpolated (calculate_setpoint_target ST2MS r s) = setpoint_target_interpolated s"
  by (simp add: calculate_setpoint_target_def Let_def)

lemma calculate_setpoint_interpolated_step:
  "\<bar>setpoint_target_interpolated (calculate_setpoint_interpolated s) - setpoint_target_interpolated s\<bar>
     \<le> \<bar>get_setpoint_adjustment_step_size s\<bar>"
  by (simp add: calculate_setpoint_interpolated_def)

lemma step_calculate_setpoint_interpolated:
  "get_setpoint_adjustment_step_size (calculate_setpoint_interpolated s)
     = get_setpoint_adjustment_step_size s"
  by (cases "setpointAdjustmentType s")
     (simp_all add: calculate_setpoint_interpolated_def get_setpoint_adjustment_step_size_def)

lemma running_setpoint_step:
  "\<bar>setpoint_target_interpolated (running_setpoint ST2MS r s) - setpoint_target_interpolated s\<bar>
     \<le> \<bar>get_setpoint_adjustment_step_size (running_setpoint ST2MS r s)\<bar>"
proof -
  let ?t = "calculate_setpoint_target ST2MS r s"
  let ?i = "calculate_setpoint_interpolated ?t"
  have view: "setpoint_view (running_setpoint ST2MS r s) = setpoint_view ?i"
    by (simp add: running_setpoint_def Let_def setpoint_view_def)
  have "setpoint_target_interpolated (running_setpoint ST2MS r s) = setpoint_target_interpolated ?i"
    using view by (simp add: setpoint_view_def)
  moreover have "get_setpoint_adjustment_step_size (running_setpoint ST2MS r s)
      = get_setpoint_adjustment_step_size ?t"
    using step_of_view [OF view] by (simp add: step_calculate_setpoint_interpolated)
  ultimately show ?thesis
    using calculate_setpoint_interpolated_step [of ?t]
    by (simp add: interpolated_calculate_setpoint_target)
qed

lemma running_rate_limit:
  assumes "running ST2MS r s = Some s'"
  shows "\<bar>setpoint_target_interpolated s' - setpoint_target_interpolated s\<bar>
           \<le> \<bar>get_setpoint_adjustment_step_size s'\<bar>"
proof -
  let ?f = "check_faults ST2MS False (running_log s)"
  have before: "setpoint_view (snd ?f) = setpoint_view s"
    by (simp add: check_faults_keeps [of setpoint_view] setpoint_view_frame setpoint_view_running_log)
  show ?thesis
  proof (cases "fst ?f")
    case True
    with assms have "s' = snd ?f" by (simp add: running_def Let_def)
    with before show ?thesis by (simp add: setpoint_view_def)
  next
    case False
    let ?p = "running_setpoint ST2MS r (snd ?f)"
    from False assms obtain a where a: "running_adjust ?p = Some a" and s': "s' = running_pid a"
      by (auto simp add: running_def Let_def)
    have "setpoint_view s' = setpoint_view ?p"
      using setpoint_view_running_adjust [OF a] s' by (simp add: setpoint_view_running_pid)
    then have "setpoint_target_interpolated s' = setpoint_target_interpolated ?p"
      "get_setpoint_adjustment_step_size s' = get_setpoint_adjustment_step_size ?p"
      using step_of_view [of s' ?p] by (simp_all add: setpoint_view_def)
    moreover have "setpoint_target_interpolated (snd ?f) = setpoint_target_interpolated s"
      using before by (simp add: setpoint_view_def)
    ultimately show ?thesis
      using running_setpoint_step [of ST2MS r "snd ?f"] by simp
  qed
qed

subsection \<open>The cutback detector never divides by zero\<close>

lemma roll_view_frame: "roll_view (frame s) = roll_view s"
  by (simp add: roll_view_def frame_def)

lemma roll_view_running_log: "roll_view (running_log s) = roll_view s"
  by (simp add: roll_view_def running_log_def)

lemma roll_view_calculate_setpoint_target:
  "roll_view (calculate_setpoint_target ST2MS r s) = roll_view s"
  by (simp add: roll_view_def calculate_setpoint_target_def Let_def)

lemma roll_view_calculate_setpoint_interpolated:
  "roll_view (calculate_setpoint_interpolated s) = roll_view s"
  by (simp add: roll_view_def calculate_setpoint_interpolated_def)

lemma roll_view_running_setpoint: "roll_view (running_setpoint ST2MS r s) = roll_view s"
proof -
  have "roll_view (running_setpoint ST2MS r s)
      = roll_view (calculate_setpoint_interpolated (calculate_setpoint_target ST2MS r s))"
    by (simp add: running_setpoint_def Let_def roll_view_def)
  then show ?thesis
    by (simp add: roll_view_calculate_setpoint_interpolated roll_view_calculate_setpoint_target)
qed

lemma roll_view_apply_noseangling: "roll_view (apply_noseangling s) = roll_view s"
  by (simp add: roll_view_def apply_noseangling_def Let_def)

lemma roll_view_apply_torquetilt: "roll_view (apply_torquetilt s) = roll_view s"
  by (simp add: roll_view_def apply_torquetilt_def)

lemma cutback_detector_Some:
  assumes "roll_aggregated (roll_view s)"
  shows "cutback_detector s \<noteq> None"
  using assms by (auto simp add: cutback_detector_def Let_def roll_aggregated_def roll_view_def)

lemma apply_turntilt_Some:
  assumes "roll_aggregated (roll_view s)"
  shows "apply_turntilt s \<noteq> None"
  using cutback_detector_Some [OF assms]
  by (auto simp add: apply_turntilt_def Let_def split: option.splits)

lemma running_adjust_Some:
  assumes "roll_aggregated (roll_view s)"
  shows "running_adjust s \<noteq> None"
proof -
  have "roll_aggregated (roll_view (apply_torquetilt (apply_noseangling s)))"
    using assms by (simp add: roll_view_apply_torquetilt roll_view_apply_noseangling)
  then show ?thesis
    using apply_turntilt_Some by (simp add: running_adjust_def)
qed

lemma running_Some:
  assumes "roll_aggregated (roll_view s)"
  shows "running ST2MS r s \<noteq> None"
proof -
  let ?f = "check_faults ST2MS False (running_log s)"
  have "roll_view (running_setpoint ST2MS r (snd ?f)) = roll_view s"
    by (simp add: roll_view_running_setpoint check_faults_keeps [of roll_view] roll_view_frame
        roll_view_running_log)
  with assms have "running_adjust (running_setpoint ST2MS r (snd ?f)) \<noteq> None"
    by (simp add: running_adjust_Some)
  then show ?thesis by (simp add: running_def Let_def)
qed

lemma roll_aggregated_cutbacks_roll:
  assumes "abs_roll_angle s = \<bar>roll_angle s\<bar>" "0 \<le> roll_aggregate_threshold s"
  shows "roll_aggregated (roll_view (cutbacks_roll s))"
  using assms by (simp add: roll_aggregated_def roll_view_def cutbacks_roll_def)

lemma roll_turn_tilt_yaw:
  "abs_roll_angle (turn_tilt_yaw r s) = abs_roll_angle s"
  "roll_angle (turn_tilt_yaw r s) = roll_angle s"
  "roll_aggregate_threshold (turn_tilt_yaw r s) = roll_aggregate_threshold s"
  by (simp_all add: turn_tilt_yaw_def Let_def)

lemma roll_get_values:
  "abs_roll_angle (get_values r s) = \<bar>roll_angle (get_values r s)\<bar>"
  "roll_aggregate_threshold (get_values r s) = roll_aggregate_threshold s"
  by (simp_all add: get_values_def)

lemma threshold_update_times:
  "roll_aggregate_threshold (update_times r s) = roll_aggregate_threshold s"
  by (simp add: update_times_def Let_def)

lemma roll_view_accel_raw: "roll_view (accel_raw r s) = roll_view s"
  by (simp add: roll_view_def accel_raw_def Let_def)

lemma roll_view_accel_average: "roll_view (accel_average s) = roll_view s"
  by (simp add: roll_view_def accel_average_def Let_def)

lemma roll_view_check_adcs: "roll_view (snd (check_adcs r s)) = roll_view s"
  by (simp add: roll_view_def check_adcs_def Let_def)

lemma roll_aggregated_read_iteration:
  assumes "0 \<le> roll_aggregate_threshold s"
  shows "roll_aggregated (roll_view (read_iteration r s))"
proof -
  let ?v = "turn_tilt_yaw r (get_values r (update_times r s))"
  let ?c = "cutbacks_roll ?v"
  have "roll_aggregated (roll_view ?c)"
    using assms
    by (intro roll_aggregated_cutbacks_roll)
       (simp_all add: roll_turn_tilt_yaw roll_get_values threshold_update_times)
  moreover have "roll_view (read_iteration r s) = roll_view ?c"
  proof -
    let ?a = "accel_average (accel_raw r ?c)"
    have "roll_view (read_iteration r s) = roll_view (snd (check_adcs r ?a))"
      by (simp add: read_iteration_def Let_def roll_view_def)
    then show ?thesis
      by (simp add: roll_view_check_adcs roll_view_accel_average roll_view_accel_raw)
  qed
  ultimately show ?thesis by simp
qed



lemma roll_aggregate_threshold_configured:
  "roll_aggregate_threshold (app_balance_configure conf mc app s) = 5000"
  by (simp add: app_balance_configure_def Let_def)

text \<open>
  The relation between the roll angle and its aggregate is what keeps the divisor from
  zero: on statics with an aggregate of 6000 and a roll angle of 0, which the fragment
  \<^verbatim>\<open>// Cutbacks:\<close> never leaves behind, the detector does compute the quotient with a
  zero divisor; with a roll angle of 10 it computes \<open>0.06 * 100 / 10 < 1\<close>.
\<close>

lemma cutback_detector_zero_divisor:
  "cutback_detector (statics_zero\<lparr>roll_aggregate := 6000, roll_aggregate_threshold := 5000,
      yaw_change := 0.1, abs_yaw_change := 0.1\<rparr>) = None"
  "cutback_detector (statics_zero\<lparr>roll_angle := 10, roll_aggregate := 6000,
      roll_aggregate_threshold := 5000, yaw_change := 0.06, abs_yaw_change := 0.06\<rparr>) = Some True"
  by (simp_all add: cutback_detector_def Let_def SIGN_def statics_zero_def)

subsection \<open>The gains\<close>

lemma multipliers_bounded: "p_multiplier s \<le> 2" "di_multiplier s \<le> 1.7"
  by (auto simp add: p_multiplier_def di_multiplier_def max_di_mult_def min_def)

lemma targets_bounded:
  assumes "0 \<le> kp_acc s" "0 \<le> ki_acc s" "0 \<le> kd_acc s"
  shows "kp_acc s * p_multiplier s \<le> 2 * kp_acc s"
    and "ki_acc s * di_multiplier s \<le> 1.7 * ki_acc s"
    and "kd_target s \<le> kd_acc s"
proof -
  show "kp_acc s * p_multiplier s \<le> 2 * kp_acc s"
    using mult_left_mono [OF multipliers_bounded(1) assms(1)] by (simp add: mult.commute)
  show "ki_acc s * di_multiplier s \<le> 1.7 * ki_acc s"
    using mult_left_mono [OF multipliers_bounded(2) assms(2)] by (simp add: mult.commute)
  have "kd_acc s * di_multiplier s \<le> kd_acc s * 1.7"
    using mult_left_mono [OF multipliers_bounded(2) assms(3)] by simp
  then have "kd_acc s * di_multiplier s / 1.7 \<le> kd_acc s" by simp
  then show "kd_target s \<le> kd_acc s"
    by (simp add: kd_target_def max_di_mult_def)
qed

lemma acc_pid_gains:
  "kp_acc (pid_gains s) = kp_acc s" "ki_acc (pid_gains s) = ki_acc s" "kd_acc (pid_gains s) = kd_acc s"
  by (simp_all add: pid_gains_def Let_def)

lemma gains_bounded_pid_gains:
  assumes "gains_bounded (gains_view s)"
  shows "gains_bounded (gains_view (pid_gains s))"
proof -
  define M where "M = max 2 (2 * kp_acc s)"
  define D where "D = max 400 (kd_acc s)"
  define I where "I = 1.7 * ki_acc s"
  from assms have acc: "0 \<le> kp_acc s" "0 \<le> ki_acc s" "0 \<le> kd_acc s"
    and b: "kp s \<le> M" "ki s \<le> I" "kd s \<le> D"
    by (simp_all add: gains_bounded_def gains_view_def M_def D_def I_def)
  have t: "kp_acc s * p_multiplier s \<le> M" "ki_acc s * di_multiplier s \<le> I" "kd_target s \<le> D"
    "2 \<le> M" "400 \<le> D" "0 \<le> I"
    using targets_bounded [OF acc] acc by (simp_all add: M_def D_def I_def)
  have "kp (pid_gains s) \<le> M"
    using b t
    by (cases "setpointAdjustmentType s"; simp add: pid_gains_def Let_def; (intro conjI impI)?; linarith)
  moreover have "ki (pid_gains s) \<le> I"
    using b t
    by (cases "setpointAdjustmentType s"; simp add: pid_gains_def Let_def; (intro conjI impI)?; linarith)
  moreover have "kd (pid_gains s) \<le> D"
    using b t
    by (cases "setpointAdjustmentType s"; simp add: pid_gains_def Let_def; (intro conjI impI)?; linarith)
  ultimately show ?thesis
    using acc by (simp add: gains_bounded_def gains_view_def acc_pid_gains M_def D_def I_def)
qed

lemma gains_bounded_reset_vars:
  assumes "0 \<le> kp_acc s" "0 \<le> ki_acc s" "0 \<le> kd_acc s"
  shows "gains_bounded (gains_view (reset_vars s))"
  using assms by (auto simp add: gains_bounded_def gains_view_def reset_vars_def max_def)

lemma gains_configured:
  "kp_acc (app_balance_configure conf mc app s) = min (conf_kp conf) 10"
  "ki_acc (app_balance_configure conf mc app s) = min (conf_ki conf) 0.01"
  "kd_acc (app_balance_configure conf mc app s) = min (conf_kd conf) 1500"
  by (simp_all add: app_balance_configure_def Let_def)

lemma gains_view_frame: "gains_view (frame s) = gains_view s"
  by (simp add: gains_view_def frame_def)

lemma gains_view_running_log: "gains_view (running_log s) = gains_view s"
  by (simp add: gains_view_def running_log_def)

lemma gains_view_running_setpoint: "gains_view (running_setpoint ST2MS r s) = gains_view s"
proof -
  have "gains_view (running_setpoint ST2MS r s)
      = gains_view (calculate_setpoint_interpolated (calculate_setpoint_target ST2MS r s))"
    by (simp add: running_setpoint_def Let_def gains_view_def)
  also have "\<dots> = gains_view (calculate_setpoint_target ST2MS r s)"
    by (simp add: gains_view_def calculate_setpoint_interpolated_def)
  also have "\<dots> = gains_view s"
    by (simp add: gains_view_def calculate_setpoint_target_def Let_def)
  finally show ?thesis .
qed

lemma gains_view_apply_noseangling: "gains_view (apply_noseangling s) = gains_view s"
  by (simp add: gains_view_def apply_noseangling_def Let_def)

lemma gains_view_apply_torquetilt: "gains_view (apply_torquetilt s) = gains_view s"
  by (simp add: gains_view_def apply_torquetilt_def)

lemma gains_view_turntilt_interpolate: "gains_view (turntilt_interpolate s) = gains_view s"
  by (simp add: gains_view_def turntilt_interpolate_def Let_def)

lemma gains_view_turntilt_desired: "gains_view (turntilt_desired s) = gains_view s"
  by (simp add: gains_view_def turntilt_desired_def Let_def)

lemma gains_view_apply_turntilt:
  "apply_turntilt s = Some s' \<Longrightarrow> gains_view s' = gains_view s"
  by (auto simp add: apply_turntilt_def Let_def gains_view_turntilt_interpolate
      gains_view_turntilt_desired split: if_splits option.splits)
     (simp_all add: gains_view_def)

lemma gains_view_running_adjust:
  "running_adjust s = Some s' \<Longrightarrow> gains_view s' = gains_view s"
  by (auto simp add: running_adjust_def gains_view_apply_noseangling
      gains_view_apply_torquetilt dest!: gains_view_apply_turntilt split: if_splits)

lemma gains_view_pid_maths: "gains_view (pid_maths s) = gains_view s"
  by (simp add: gains_view_def pid_maths_def Let_def)

lemma gains_view_pid_riding: "gains_view (pid_riding s) = gains_view s"
  by (simp add: gains_view_def pid_riding_def pid_prop_starting_def Let_def)

lemma gains_view_pid_log: "gains_view (pid_log s) = gains_view s"
  by (simp add: gains_view_def pid_log_def)

lemma gains_bounded_pid_soft_start:
  assumes "gains_bounded (gains_view s)"
  shows "gains_bounded (gains_view (pid_soft_start s))"
  using assms by (simp add: gains_bounded_def gains_view_def pid_soft_start_def Let_def)

lemma gains_bounded_pid_output:
  assumes "gains_bounded (gains_view s)"
  shows "gains_bounded (gains_view (pid_output s))"
  using assms gains_bounded_pid_soft_start [OF assms]
  by (simp add: pid_output_def gains_view_pid_log gains_view_pid_riding)

lemma gains_view_output_to_motor: "gains_view (output_to_motor s) = gains_view s"
  by (simp add: gains_view_def output_to_motor_def)

lemma gains_view_start_click: "gains_view (start_click s) = gains_view s"
  by (simp add: gains_view_def start_click_def set_current_def Let_def)

lemma gains_bounded_running_pid:
  assumes "gains_bounded (gains_view s)"
  shows "gains_bounded (gains_view (running_pid s))"
proof -
  have "gains_bounded (gains_view (pid_maths s))"
    using assms by (simp add: gains_view_pid_maths)
  then have "gains_bounded (gains_view (pid_output (pid_gains (pid_maths s))))"
    by (intro gains_bounded_pid_output gains_bounded_pid_gains)
  then show ?thesis
    by (simp add: running_pid_def gains_view_start_click gains_view_output_to_motor)
qed

lemma gains_bounded_running:
  assumes "gains_bounded (gains_view s)" "running ST2MS r s = Some s'"
  shows "gains_bounded (gains_view s')"
proof -
  let ?f = "check_faults ST2MS False (running_log s)"
  have before: "gains_view (snd ?f) = gains_view s"
    by (simp add: check_faults_keeps [of gains_view] gains_view_frame gains_view_running_log)
  show ?thesis
  proof (cases "fst ?f")
    case True
    with assms(2) have "s' = snd ?f" by (simp add: running_def Let_def)
    with before assms(1) show ?thesis by simp
  next
    case False
    let ?p = "running_setpoint ST2MS r (snd ?f)"
    from False assms(2) obtain a where a: "running_adjust ?p = Some a" and s': "s' = running_pid a"
      by (auto simp add: running_def Let_def)
    have "gains_view a = gains_view s"
      using gains_view_running_adjust [OF a] before by (simp add: gains_view_running_setpoint)
    with assms(1) show ?thesis
      unfolding s' by (intro gains_bounded_running_pid) simp
  qed
qed

subsection \<open>What reading the values leaves alone\<close>

lemma views_update_times:
  "setpoint_view (update_times r s) = setpoint_view s" "gains_view (update_times r s) = gains_view s"
  by (simp_all add: setpoint_view_def gains_view_def update_times_def Let_def)

lemma views_get_values:
  "setpoint_view (get_values r s) = setpoint_view s" "gains_view (get_values r s) = gains_view s"
  by (simp_all add: setpoint_view_def gains_view_def get_values_def)

lemma views_turn_tilt_yaw:
  "setpoint_view (turn_tilt_yaw r s) = setpoint_view s" "gains_view (turn_tilt_yaw r s) = gains_view s"
  by (simp_all add: setpoint_view_def gains_view_def turn_tilt_yaw_def Let_def)

lemma views_cutbacks_roll:
  "setpoint_view (cutbacks_roll s) = setpoint_view s" "gains_view (cutbacks_roll s) = gains_view s"
  by (simp_all add: setpoint_view_def gains_view_def cutbacks_roll_def)

lemma views_accel_raw:
  "setpoint_view (accel_raw r s) = setpoint_view s" "gains_view (accel_raw r s) = gains_view s"
  by (simp_all add: setpoint_view_def gains_view_def accel_raw_def Let_def)

lemma views_accel_average:
  "setpoint_view (accel_average s) = setpoint_view s" "gains_view (accel_average s) = gains_view s"
  by (simp_all add: setpoint_view_def gains_view_def accel_average_def Let_def)

lemma views_check_adcs:
  "setpoint_view (snd (check_adcs r s)) = setpoint_view s"
  "gains_view (snd (check_adcs r s)) = gains_view s"
  by (simp_all add: setpoint_view_def gains_view_def check_adcs_def Let_def)

lemma views_read_iteration:
  "setpoint_view (read_iteration r s) = setpoint_view s"
  "gains_view (read_iteration r s) = gains_view s"
proof -
  let ?a = "accel_average (accel_raw r (cutbacks_roll (turn_tilt_yaw r (get_values r (update_times r s)))))"
  have "setpoint_view (read_iteration r s) = setpoint_view (snd (check_adcs r ?a))"
    by (simp add: read_iteration_def Let_def setpoint_view_def)
  then show "setpoint_view (read_iteration r s) = setpoint_view s"
    by (simp add: views_check_adcs views_accel_average views_accel_raw views_cutbacks_roll
        views_turn_tilt_yaw views_get_values views_update_times)
  have "gains_view (read_iteration r s) = gains_view (snd (check_adcs r ?a))"
    by (simp add: read_iteration_def Let_def gains_view_def)
  then show "gains_view (read_iteration r s) = gains_view s"
    by (simp add: views_check_adcs views_accel_average views_accel_raw views_cutbacks_roll
        views_turn_tilt_yaw views_get_values views_update_times)
qed

lemma conf_stiffening_gains:
  "conf_kp conf_stiffening = 6" "conf_ki conf_stiffening = 0.005" "conf_kd conf_stiffening = 800"
  "conf_kp conf_low_gains = 0.5" "conf_ki conf_low_gains = 0.005" "conf_kd conf_low_gains = 300"
  by (simp_all add: conf_stiffening_def conf_low_gains_def riding_example_gains)

text \<open>
  Claim C4, as stated: the applied gains never exceed \<open>min(conf.kp, 10)\<close>,
  \<open>min(conf.ki, 0.01)\<close> and \<open>min(conf.kd, 1500)\<close>. The caps are applied to the base
  gains; the gain scheduling multiplies the base gains by the torque-tilt multipliers
  before it moves the applied gains towards them
  (\<^verbatim>\<open>// stiffen kP and also kI (not quite as much as kP) with increased torquetilt\<close>),
  and in \<open>REVERSESTOP\<close> it moves \<open>kp\<close> and \<open>kd\<close> towards 2 and 400. With the
  three gains at their caps 6, 0.005 and 800 and the torque tilt at 2.004 degrees, one
  pass of the gain scheduling leaves \<open>kp\<close> (6.04008) and \<open>ki\<close> (0.0050167) above the
  caps. With the gains at the caps 0.5, 0.005 and 300 in \<open>REVERSESTOP\<close>, one pass
  leaves \<open>kp\<close> (0.515) and \<open>kd\<close> (301) above the caps.
\<close>

theorem gains_cap_counterexample:
  "kp stiffening_example \<le> min (conf_kp (balance_conf stiffening_example)) 10
   \<and> ki stiffening_example \<le> min (conf_ki (balance_conf stiffening_example)) 0.01
   \<and> kd stiffening_example \<le> min (conf_kd (balance_conf stiffening_example)) 1500
   \<and> \<not> (kp (pid_gains stiffening_example) \<le> min (conf_kp (balance_conf stiffening_example)) 10)
   \<and> \<not> (ki (pid_gains stiffening_example) \<le> min (conf_ki (balance_conf stiffening_example)) 0.01)
   \<and> kp reverse_stop_gains_example \<le> min (conf_kp (balance_conf reverse_stop_gains_example)) 10
   \<and> ki reverse_stop_gains_example \<le> min (conf_ki (balance_conf reverse_stop_gains_example)) 0.01
   \<and> kd reverse_stop_gains_example \<le> min (conf_kd (balance_conf reverse_stop_gains_example)) 1500
   \<and> \<not> (kp (pid_gains reverse_stop_gains_example)
           \<le> min (conf_kp (balance_conf reverse_stop_gains_example)) 10)
   \<and> \<not> (kd (pid_gains reverse_stop_gains_example)
           \<le> min (conf_kd (balance_conf reverse_stop_gains_example)) 1500)"
  by (simp add: pid_gains_def Let_def p_multiplier_def di_multiplier_def max_di_mult_def kd_target_def
      stiffening_example_def reverse_stop_gains_example_def riding_example_fields riding_example_gains
      conf_stiffening_gains)

text \<open>
  Claim C4, amended. \<open>app_balance_configure\<close> caps the base gains: \<open>kp_acc\<close>,
  \<open>ki_acc\<close> and \<open>kd_acc\<close> are \<open>min(conf.kp, 10)\<close>, \<open>min(conf.ki, 0.01)\<close> and
  \<open>min(conf.kd, 1500)\<close>. The applied gains follow targets that the torque-tilt
  multipliers raise above the base gains and that reverse stop replaces by 2 and 400, so
  what they keep, for base gains that are not negative, is \<open>kp \<le> max(2, 2 kp_acc)\<close>,
  \<open>ki \<le> 1.7 ki_acc\<close> and \<open>kd \<le> max(400, kd_acc)\<close>: \<open>reset_vars\<close> establishes the
  bound and every iteration of the loop that begins in a running state preserves it.
\<close>

theorem gains_bounded_invariant:
  "(0 \<le> kp_acc s \<and> 0 \<le> ki_acc s \<and> 0 \<le> kd_acc s \<longrightarrow> gains_bounded (gains_view (reset_vars s)))
   \<and> (gains_bounded (gains_view s) \<and> running_iteration ST2MS r s = Some s'
        \<longrightarrow> gains_bounded (gains_view s'))
   \<and> kp_acc (app_balance_configure conf mc app s) = min (conf_kp conf) 10
   \<and> ki_acc (app_balance_configure conf mc app s) = min (conf_ki conf) 0.01
   \<and> kd_acc (app_balance_configure conf mc app s) = min (conf_kd conf) 1500"
  using gains_bounded_reset_vars [of s]
    gains_bounded_running [of "read_iteration r s" ST2MS r s']
  by (simp add: gains_configured running_iteration_def views_read_iteration)

theorem gains_bounded_invariant_witness:
  "(0 \<le> kp_acc riding_example \<and> 0 \<le> ki_acc riding_example \<and> 0 \<le> kd_acc riding_example
      \<and> gains_bounded (gains_view (reset_vars riding_example)))
   \<and> (gains_bounded (gains_view riding_example)
      \<and> running_iteration ST2MS_10kHz duty_readings riding_example \<noteq> None
      \<and> gains_bounded (gains_view (the (running_iteration ST2MS_10kHz duty_readings riding_example))))"
proof -
  have "0 \<le> roll_aggregate_threshold riding_example" by (simp add: riding_example_gains)
  then have "running_iteration ST2MS_10kHz duty_readings riding_example \<noteq> None"
    using running_Some roll_aggregated_read_iteration by (simp add: running_iteration_def)
  then obtain s' where s': "running_iteration ST2MS_10kHz duty_readings riding_example = Some s'"
    by auto
  have b: "gains_bounded (gains_view riding_example)"
    by (simp add: gains_bounded_def gains_view_def riding_example_gains)
  show ?thesis
    using gains_bounded_invariant [of riding_example ST2MS_10kHz duty_readings s'] s' b
    by (simp add: riding_example_gains)
qed

text \<open>
  Claim C6, as stated: the interpolated setpoint moves by at most the step of the mode of
  the previous iteration. The rate limiter runs after \<open>calculate_setpoint_target\<close> and
  takes the step of the mode selected in the same iteration. The board rides in
  \<open>TILTBACK_NONE\<close> (return step 0.001) when the duty cycle rises above
  \<open>tiltback_duty\<close>: the mode becomes \<open>TILTBACK_DUTY\<close> and the interpolated setpoint
  moves by the duty step 0.005.
\<close>

theorem setpoint_step_counterexample:
  "\<not> fst (check_faults ST2MS_10kHz False duty_example)
   \<and> \<not> (\<bar>setpoint_target_interpolated
            (calculate_setpoint_interpolated
              (calculate_setpoint_target ST2MS_10kHz duty_readings
                (snd (check_faults ST2MS_10kHz False duty_example))))
          - setpoint_target_interpolated duty_example\<bar>
        \<le> get_setpoint_adjustment_step_size duty_example)"
proof -
  let ?f = "snd (check_faults ST2MS_10kHz False duty_example)"
  have no: "\<not> fst (check_faults ST2MS_10kHz False duty_example)"
    by (simp add: check_faults_defs duty_example_def riding_example_fields conf_example_fields
        ST2MS_10kHz_values)
  have fr: "\<And>x. balance_conf (frame x) = balance_conf x"
    "\<And>x. setpointAdjustmentType (frame x) = setpointAdjustmentType x"
    "\<And>x. abs_duty_cycle (frame x) = abs_duty_cycle x"
    "\<And>x. erpm (frame x) = erpm x"
    "\<And>x. setpoint_target_interpolated (frame x) = setpoint_target_interpolated x"
    "\<And>x. tiltback_duty_step_size (frame x) = tiltback_duty_step_size x"
    by (simp_all add: frame_def)
  have f: "balance_conf ?f = conf_example" "setpointAdjustmentType ?f = TILTBACK_NONE"
    "abs_duty_cycle ?f = 0.9" "erpm ?f = 5000" "setpoint_target_interpolated ?f = 0"
    "tiltback_duty_step_size ?f = 0.005"
    using check_faults_keeps [of balance_conf, OF fr(1), of ST2MS_10kHz False duty_example]
      check_faults_keeps [of setpointAdjustmentType, OF fr(2), of ST2MS_10kHz False duty_example]
      check_faults_keeps [of abs_duty_cycle, OF fr(3), of ST2MS_10kHz False duty_example]
      check_faults_keeps [of erpm, OF fr(4), of ST2MS_10kHz False duty_example]
      check_faults_keeps [of setpoint_target_interpolated, OF fr(5), of ST2MS_10kHz False duty_example]
      check_faults_keeps [of tiltback_duty_step_size, OF fr(6), of ST2MS_10kHz False duty_example]
    by (simp_all add: duty_example_def riding_example_fields)
  let ?t = "calculate_setpoint_target ST2MS_10kHz duty_readings ?f"
  have t: "setpointAdjustmentType ?t = TILTBACK_DUTY" "setpoint_target ?t = 10"
    "setpoint_target_interpolated ?t = 0" "tiltback_duty_step_size ?t = 0.005"
    using f
    by (simp_all add: calculate_setpoint_target_def Let_def tiltback_angle_def conf_example_fields
        duty_readings_def overvoltage_readings_def)
  have "setpoint_target_interpolated (calculate_setpoint_interpolated ?t) = 0.005"
    using t by (simp add: calculate_setpoint_interpolated_def get_setpoint_adjustment_step_size_def)
  moreover have "get_setpoint_adjustment_step_size duty_example = 0.001"
    "setpoint_target_interpolated duty_example = 0"
    by (simp_all add: get_setpoint_adjustment_step_size_def duty_example_def riding_example_fields)
  ultimately show ?thesis using no by simp
qed

text \<open>
  Claim C6, amended. In an iteration of the loop that begins in a running state, the
  interpolated setpoint moves by at most the magnitude of the step of the mode that is
  in force at the end of the iteration, which is the mode \<open>calculate_setpoint_target\<close>
  selected in this iteration before the rate limiter ran; for a step that is not
  negative this is the configured step of that mode. (Outside the running states the
  interpolated setpoint changes only in \<open>reset_vars\<close>, which sets it to half the pitch.)
\<close>

theorem setpoint_rate_limit:
  assumes "running_iteration ST2MS r s = Some s'"
  shows "\<bar>setpoint_target_interpolated s' - setpoint_target_interpolated s\<bar>
           \<le> \<bar>get_setpoint_adjustment_step_size s'\<bar>"
proof -
  have "setpoint_target_interpolated (read_iteration r s) = setpoint_target_interpolated s"
    using views_read_iteration(1) [of r s] by (simp add: setpoint_view_def)
  then show ?thesis
    using running_rate_limit [of ST2MS r "read_iteration r s" s'] assms
    by (simp add: running_iteration_def)
qed

theorem setpoint_rate_limit_witness:
  "running_iteration ST2MS_10kHz duty_readings riding_example \<noteq> None
   \<and> \<bar>setpoint_target_interpolated (the (running_iteration ST2MS_10kHz duty_readings riding_example))
        - setpoint_target_interpolated riding_example\<bar>
      \<le> \<bar>get_setpoint_adjustment_step_size
            (the (running_iteration ST2MS_10kHz duty_readings riding_example))\<bar>"
proof -
  have "0 \<le> roll_aggregate_threshold riding_example" by (simp add: riding_example_gains)
  then have "running_iteration ST2MS_10kHz duty_readings riding_example \<noteq> None"
    using running_Some roll_aggregated_read_iteration by (simp add: running_iteration_def)
  then obtain s' where s': "running_iteration ST2MS_10kHz duty_readings riding_example = Some s'"
    by auto
  show ?thesis
    using setpoint_rate_limit [OF s'] s' by simp
qed

subsection \<open>apply_torquetilt: the measured acceleration\<close>

lemma measured_acc_min: "measured_acc a = min a 5"
  by (simp add: measured_acc_def Let_def)

text \<open>
  Claim C5 says that the measured acceleration entering \<open>acc_diff\<close> is the acceleration
  clipped to \<open>[-5, 5]\<close>. The source clips from below and then assigns the variable
  again from the unclipped acceleration:
  \<^verbatim>\<open>float measured_acc = fmaxf(acceleration, -5);\<close>
  \<^verbatim>\<open>measured_acc = fminf(acceleration, 5);\<close>
  so only the upper clip remains (\<open>measured_acc_min\<close>). At an acceleration of \<open>-10\<close>
  the measured acceleration is \<open>-10\<close>, not \<open>-5\<close>, and \<open>acc_diff\<close> is the expected
  acceleration plus 10.
\<close>

theorem measured_acc_lower_clip_lost:
  "acceleration decelerating_example = - 10
   \<and> measured_acc (acceleration decelerating_example) = - 10
   \<and> max (- 5) (min (acceleration decelerating_example) 5) = - 5
   \<and> acc_diff decelerating_example 0 = expected_acc decelerating_example 0 + 10"
  by (simp add: acc_diff_def measured_acc_def Let_def decelerating_example_def)

subsection \<open>The moving average of the acceleration\<close>











lemma ring_view_accel_cong:
  assumes "ring_view a = ring_view b"
  shows "ring_view (accel_average (accel_raw r a)) = ring_view (accel_average (accel_raw r b))"
  using assms by (simp add: ring_view_def accel_average_def accel_raw_def Let_def)

lemma ring_view_before:
  "ring_view (update_times r s) = ring_view s"
  "ring_view (get_values r s) = ring_view s"
  "ring_view (turn_tilt_yaw r s) = ring_view s"
  "ring_view (cutbacks_roll s) = ring_view s"
  by (simp_all add: ring_view_def update_times_def get_values_def turn_tilt_yaw_def
      cutbacks_roll_def Let_def)

lemma ring_view_check_adcs: "ring_view (snd (check_adcs r s)) = ring_view s"
  by (simp add: ring_view_def check_adcs_def Let_def)

lemma ring_view_read_iteration:
  "ring_view (read_iteration r s) = ring_view (accel_average (accel_raw r s))"
proof -
  let ?b = "cutbacks_roll (turn_tilt_yaw r (get_values r (update_times r s)))"
  let ?a = "accel_average (accel_raw r ?b)"
  have "ring_view (read_iteration r s) = ring_view (snd (check_adcs r ?a))"
    by (simp add: read_iteration_def Let_def ring_view_def)
  also have "\<dots> = ring_view ?a" by (simp add: ring_view_check_adcs)
  also have "\<dots> = ring_view (accel_average (accel_raw r s))"
    by (intro ring_view_accel_cong) (simp add: ring_view_before)
  finally show ?thesis .
qed

lemma ring_view_frame: "ring_view (frame s) = ring_view s"
  by (simp add: ring_view_def frame_def)

lemma ring_view_running_log: "ring_view (running_log s) = ring_view s"
  by (simp add: ring_view_def running_log_def)

lemma ring_view_running_setpoint: "ring_view (running_setpoint ST2MS r s) = ring_view s"
proof -
  have "ring_view (running_setpoint ST2MS r s)
      = ring_view (calculate_setpoint_interpolated (calculate_setpoint_target ST2MS r s))"
    by (simp add: running_setpoint_def Let_def ring_view_def)
  also have "\<dots> = ring_view (calculate_setpoint_target ST2MS r s)"
    by (simp add: ring_view_def calculate_setpoint_interpolated_def)
  also have "\<dots> = ring_view s"
    by (simp add: ring_view_def calculate_setpoint_target_def Let_def)
  finally show ?thesis .
qed

lemma ring_view_apply_noseangling: "ring_view (apply_noseangling s) = ring_view s"
  by (simp add: ring_view_def apply_noseangling_def Let_def)

lemma ring_view_apply_torquetilt: "ring_view (apply_torquetilt s) = ring_view s"
  by (simp add: ring_view_def apply_torquetilt_def)

lemma ring_view_turntilt_interpolate: "ring_view (turntilt_interpolate s) = ring_view s"
  by (simp add: ring_view_def turntilt_interpolate_def Let_def)

lemma ring_view_turntilt_desired: "ring_view (turntilt_desired s) = ring_view s"
  by (simp add: ring_view_def turntilt_desired_def Let_def)

lemma ring_view_apply_turntilt:
  "apply_turntilt s = Some s' \<Longrightarrow> ring_view s' = ring_view s"
  by (auto simp add: apply_turntilt_def Let_def ring_view_turntilt_interpolate
      ring_view_turntilt_desired split: if_splits option.splits)
     (simp_all add: ring_view_def)

lemma ring_view_running_adjust:
  "running_adjust s = Some s' \<Longrightarrow> ring_view s' = ring_view s"
  by (auto simp add: running_adjust_def ring_view_apply_noseangling
      ring_view_apply_torquetilt dest!: ring_view_apply_turntilt split: if_splits)

lemma ring_view_pid_maths: "ring_view (pid_maths s) = ring_view s"
  by (simp add: ring_view_def pid_maths_def Let_def)

lemma ring_view_pid_gains: "ring_view (pid_gains s) = ring_view s"
  by (simp add: ring_view_def pid_gains_def Let_def)

lemma ring_view_pid_output: "ring_view (pid_output s) = ring_view s"
  by (simp add: ring_view_def pid_output_def pid_log_def pid_soft_start_def pid_riding_def
      pid_prop_starting_def Let_def)

lemma ring_view_output_to_motor: "ring_view (output_to_motor s) = ring_view s"
  by (simp add: ring_view_def output_to_motor_def)

lemma ring_view_start_click: "ring_view (start_click s) = ring_view s"
  by (simp add: ring_view_def start_click_def set_current_def Let_def)

lemma ring_view_running_pid: "ring_view (running_pid s) = ring_view s"
  by (simp add: running_pid_def ring_view_start_click ring_view_output_to_motor
      ring_view_pid_output ring_view_pid_gains ring_view_pid_maths)

lemma ring_view_running:
  assumes "running ST2MS r s = Some s'"
  shows "ring_view s' = ring_view s"
proof -
  let ?f = "check_faults ST2MS False (running_log s)"
  have before: "ring_view (snd ?f) = ring_view s"
    by (simp add: check_faults_keeps [of ring_view] ring_view_frame ring_view_running_log)
  show ?thesis
  proof (cases "fst ?f")
    case True
    with assms have "s' = snd ?f" by (simp add: running_def Let_def)
    with before show ?thesis by simp
  next
    case False
    let ?p = "running_setpoint ST2MS r (snd ?f)"
    from False assms obtain a where a: "running_adjust ?p = Some a" and s': "s' = running_pid a"
      by (auto simp add: running_def Let_def)
    have "ring_view a = ring_view s"
      using ring_view_running_adjust [OF a] before by (simp add: ring_view_running_setpoint)
    then show ?thesis
      unfolding s' by (simp add: ring_view_running_pid)
  qed
qed

lemma ring_view_running_iteration:
  assumes "running_iteration ST2MS r s = Some s'"
  shows "ring_view s' = ring_view (accel_average (accel_raw r s))"
  using ring_view_running [of ST2MS r "read_iteration r s" s'] assms
  by (simp add: running_iteration_def ring_view_read_iteration)

lemma ring_holds_view:
  assumes "ring_view a = ring_view b"
  shows "ring_holds a xs = ring_holds b xs"
  using assms by (simp add: ring_view_def ring_holds_def)



end
